theory Spec2Isabelle
  imports Complex_Main "HOL-Library.Word" "HOL-Library.Multiset"
begin

unbundle bit_operations_syntax

section \<open>The degree-centrality enactor (dc\_enactor.cuh)\<close>

subsection \<open>Status codes, pointers and the record of device calls\<close>

text \<open>
  \<open>cudaError_t\<close> is the status every device-facing call returns. The source tests it
  with \<open>if (retval = ...)\<close>, that is, against \<open>cudaSuccess\<close>. The source names
  \<open>cudaErrorInvalidDeviceFunction\<close> and \<open>cudaErrorInvalidConfiguration\<close>;
  \<open>cudaErrorMemoryAllocation\<close> is the answer of a failed allocation, and every other
  error code is \<open>cudaErrorOther\<close>.
\<close>

datatype cudaError_t =
    cudaSuccess
  | cudaErrorMemoryAllocation
  | cudaErrorInvalidDeviceFunction
  | cudaErrorInvalidConfiguration
  | cudaErrorOther nat

text \<open>
  A pointer or handle is abstracted to whether it is null: the source only ever tests
  \<open>done\<close> and \<open>d_scanned_edges\<close> against \<open>NULL\<close>.
\<close>

datatype ptr = NULL | Allocated

text \<open>
  Every call that leaves the host is recorded, in program order, with the status it
  returned. \<open>Kernel_Advance r w\<close> records the indices of the frontier buffers handed
  to the advance kernel as its input and its output queue.
\<close>

datatype event =
    CudaHostAlloc cudaError_t
  | CudaHostGetDevicePointer cudaError_t
  | CudaEventCreateWithFlags cudaError_t
  | CudaBindTexture cudaError_t
  | CudaFreeHost
  | CudaEventDestroy
  | CudaThreadSynchronize cudaError_t
  | EnactorBase_Setup int cudaError_t
  | Kernel_CUBRadixSort
  | Cub_ExclusiveSum ptr
  | CudaMalloc_temp_storage cudaError_t
  | CudaMalloc_scanned_edges cudaError_t
  | Kernel_MemsetCopyVector
  | Kernel_Advance int int
  | CudaEventQuery
  | WorkProgress_GetQueueLength cudaError_t
  | WorkProgress_CheckOverflow cudaError_t bool
  | CudaFree_scanned_edges
  | Printf string

text \<open>
  The device: the status each runtime call answers with during one host call, and the
  advance kernel, which the enactor's source does not contain. The kernel is a parameter: from the
  CSR arrays, the input frontier and the capacity of the output queue it gives the new
  contents of the output queue and the write offset it recorded.
\<close>

record device =
  r_cudaHostAlloc :: cudaError_t
  r_cudaHostGetDevicePointer :: cudaError_t
  r_cudaEventCreateWithFlags :: cudaError_t
  r_cudaBindTexture :: cudaError_t
  r_cudaThreadSynchronize :: cudaError_t
  r_EnactorBase_Setup :: cudaError_t
  r_cudaMalloc_temp_storage :: cudaError_t
  r_cudaMalloc_scanned_edges :: cudaError_t
  r_GetQueueLength :: cudaError_t
  r_CheckOverflow :: cudaError_t
  advance_kernel :: "int list \<Rightarrow> int list \<Rightarrow> int list \<Rightarrow> int \<Rightarrow> int list \<times> int"

text \<open>
  Modelled from the spec: \<open>util::GRError\<close> (error\_utils.cuh is not among the sources).
  "Every device-facing operation returns a status": the wrapper reports the message
  and hands the status on unchanged.
\<close>

definition GRError :: "cudaError_t \<Rightarrow> string \<Rightarrow> cudaError_t" where
  "GRError e msg = e"

subsection \<open>Enactor state\<close>

record FrontierAttribute =
  queue_length :: int
  queue_index :: int
  selector :: int
  queue_reset :: bool

text \<open>
  Modelled from the spec: \<open>WorkProgress\<close> (not among the sources) "exposes
  GetQueueLength(index) (blocking device-counter read) and CheckOverflow() (compares
  recorded write offset to capacity)".
\<close>

record WorkProgress =
  queue_counters :: "int \<Rightarrow> int"
  write_offset :: int
  capacity :: int

text \<open>Modelled from the spec: \<open>WorkProgress::GetQueueLength\<close>, the read of the length
  counter kept under a queue index.\<close>

definition GetQueueLength :: "WorkProgress \<Rightarrow> int \<Rightarrow> int" where
  "GetQueueLength wp idx = queue_counters wp idx"

text \<open>Modelled from the spec: \<open>WorkProgress::CheckOverflow\<close> "compares recorded write
  offset to capacity".\<close>

definition CheckOverflow :: "WorkProgress \<Rightarrow> bool" where
  "CheckOverflow wp = (capacity wp < write_offset wp)"

text \<open>
  The members of \<open>DCEnactor\<close> and those of \<open>EnactorBase\<close> the source uses.
  \<open>done_ptr\<close> is the member \<open>done\<close> (renamed: \<open>done\<close> is an Isar keyword).
  \<open>throttle_event\<close> is a handle: \<open>NULL\<close> stands for "never created".
\<close>

record DCEnactor =
  DEBUG :: bool
  device_sm_version :: int
  total_runtimes :: "64 word"
  total_lifetimes :: "64 word"
  total_queued :: "64 word"
  done_ptr :: ptr
  d_done :: ptr
  throttle_event :: ptr
  iteration :: "64 word"
  frontier_attribute :: FrontierAttribute
  work_progress :: WorkProgress
  trace :: "event list"

definition record_event :: "event \<Rightarrow> DCEnactor \<Rightarrow> DCEnactor" where
  "record_event ev s = s\<lparr>trace := trace s @ [ev]\<rparr>"

text \<open>The constructor: \<open>iteration(0), total_queued(0), done(NULL), d_done(NULL)\<close>.
  The members it does not initialise are parameters.\<close>

definition DCEnactor_new ::
  "bool \<Rightarrow> int \<Rightarrow> 64 word \<Rightarrow> 64 word \<Rightarrow> FrontierAttribute \<Rightarrow> WorkProgress \<Rightarrow> DCEnactor" where
  "DCEnactor_new dbg sm rt lt fa wp =
     \<lparr>DEBUG = dbg, device_sm_version = sm, total_runtimes = rt, total_lifetimes = lt,
      total_queued = 0, done_ptr = NULL, d_done = NULL, throttle_event = NULL, iteration = 0,
      frontier_attribute = fa, work_progress = wp, trace = []\<rparr>"

subsection \<open>Setup\<close>

text \<open>The texture binding at the end of \<open>Setup\<close> (the \<open>do { ... } while (0)\<close> block).\<close>

definition Setup_bind :: "device \<Rightarrow> DCEnactor \<Rightarrow> cudaError_t \<times> DCEnactor" where
  "Setup_bind dev s =
     (GRError (r_cudaBindTexture dev) ''DCEnactor cudaBindTexture row_offset_tex_ref failed'',
      record_event (CudaBindTexture (r_cudaBindTexture dev)) s)"

text \<open>
  \<open>Setup\<close>: the block guarded by \<open>if (!done)\<close> allocates the pinned flag, maps it
  into device space and creates the throttle event, returning at the first failure;
  then the texture is bound. A failed \<open>cudaHostAlloc\<close> leaves \<open>done\<close> null.
\<close>

definition Setup :: "device \<Rightarrow> DCEnactor \<Rightarrow> cudaError_t \<times> DCEnactor" where
  "Setup dev s =
     (if done_ptr s = NULL then
        (let s1 = record_event (CudaHostAlloc (r_cudaHostAlloc dev)) s;
             r1 = GRError (r_cudaHostAlloc dev) ''DCEnactor cudaHostAlloc done failed''
         in if r1 \<noteq> cudaSuccess then (r1, s1)
            else
              (let s2 = record_event (CudaHostGetDevicePointer (r_cudaHostGetDevicePointer dev))
                          (s1\<lparr>done_ptr := Allocated\<rparr>);
                   r2 = GRError (r_cudaHostGetDevicePointer dev)
                          ''DCEnactor cudaHostGetDevicePointer done failed''
               in if r2 \<noteq> cudaSuccess then (r2, s2)
                  else
                    (let s3 = record_event
                                (CudaEventCreateWithFlags (r_cudaEventCreateWithFlags dev))
                                (s2\<lparr>d_done := Allocated\<rparr>);
                         r3 = GRError (r_cudaEventCreateWithFlags dev)
                                ''DCEnactor cudaEventCreateWithFlags throttle_event failed''
                     in if r3 \<noteq> cudaSuccess then (r3, s3)
                        else Setup_bind dev (s3\<lparr>throttle_event := Allocated\<rparr>))))
      else Setup_bind dev s)"

text \<open>A sequence of \<open>Setup\<close> calls on one enactor, each with the device's answers
  at that time; the statuses are dropped.\<close>

fun Setup_calls :: "device list \<Rightarrow> DCEnactor \<Rightarrow> DCEnactor" where
  "Setup_calls [] s = s"
| "Setup_calls (dev # devs) s = Setup_calls devs (snd (Setup dev s))"

subsection \<open>Destructor\<close>


subsection \<open>GetStatistics\<close>

text \<open>
  The out-parameters of \<open>GetStatistics\<close>. \<open>total_queued\<close> is a \<open>long long\<close>,
  \<open>search_depth\<close> a \<open>VertexId\<close> (any integer type, of width \<open>'v\<close>), \<open>avg_duty\<close> a
  \<open>double\<close>. Double arithmetic is a parameter of the model: \<open>to_double\<close> converts an
  \<open>unsigned long long\<close>, \<open>ddiv\<close> is the division of two doubles, \<open>dzero\<close> is \<open>0.0\<close>.
\<close>

record ('i, 'd) statistics =
  out_total_queued :: "64 word"
  out_search_depth :: 'i
  out_avg_duty :: 'd

definition GetStatistics ::
  "(64 word \<Rightarrow> 'd) \<Rightarrow> ('d \<Rightarrow> 'd \<Rightarrow> 'd) \<Rightarrow> 'd \<Rightarrow> device \<Rightarrow> DCEnactor
     \<Rightarrow> ('v::len word, 'd) statistics \<times> DCEnactor" where
  "GetStatistics to_double ddiv dzero dev s =
     (let s1 = record_event (CudaThreadSynchronize (r_cudaThreadSynchronize dev)) s
      in (\<lparr>out_total_queued = total_queued s1,
           out_search_depth = scast (iteration s1),
           out_avg_duty = (if 0 < total_lifetimes s1
                           then ddiv (to_double (total_runtimes s1)) (to_double (total_lifetimes s1))
                           else dzero)\<rparr>, s1))"

subsection \<open>Problem data\<close>

text \<open>
  \<open>VertexId\<close>, \<open>SizeT\<close> and \<open>Value\<close> are template parameters; ids, sizes and degrees
  are integers here. A two-element array (\<open>d_keys[2]\<close>, \<open>frontier_elements[2]\<close>) is
  a pair read and written through an index; the source only uses the indices
  \<open>selector\<close> and \<open>selector^1\<close>, with \<open>selector\<close> set to 0.
\<close>

definition buf_at :: "'a \<times> 'a \<Rightarrow> int \<Rightarrow> 'a" where
  "buf_at b i = (if i = 0 then fst b else snd b)"

definition buf_upd :: "'a \<times> 'a \<Rightarrow> int \<Rightarrow> 'a \<Rightarrow> 'a \<times> 'a" where
  "buf_upd b i v = (if i = 0 then (v, snd b) else (fst b, v))"

record GraphSlice =
  nodes :: int
  edges :: int
  d_row_offsets :: "int list"
  d_column_indices :: "int list"
  frontier_queues_d_keys :: "int list \<times> int list"
  frontier_elements :: "int \<times> int"

record DataSlice =
  d_degrees :: "int list"
  d_node_id :: "int list"
  d_sub_row_offsets :: "int list"
  d_sub_col_indices :: "int list"

text \<open>\<open>graph_slice\<close> is \<open>problem->graph_slices[0]\<close>, \<open>data_slice\<close> is
  \<open>problem->data_slices[0]\<close>.\<close>

record DCProblem =
  graph_slice :: GraphSlice
  data_slice :: DataSlice

subsection \<open>Device routines called by EnactDC\<close>

text \<open>
  Modelled from the spec: \<open>util::CUBRadixSort\<close> (sort\_utils.cuh is not among the
  sources). "Sorts (degree key, vertex-id value) pairs descending by key", "ties broken
  by lower vertex-id first": a stable sort of the first \<open>num_elements\<close> key-value
  pairs, ascending or descending by key as the first argument says.
\<close>

fun radix_insert :: "bool \<Rightarrow> int \<times> int \<Rightarrow> (int \<times> int) list \<Rightarrow> (int \<times> int) list" where
  "radix_insert is_ascend p [] = [p]"
| "radix_insert is_ascend p (q # qs) =
     (if (if is_ascend then fst p \<le> fst q else fst q \<le> fst p) then p # q # qs
      else q # radix_insert is_ascend p qs)"

definition radix_sort_pairs :: "bool \<Rightarrow> (int \<times> int) list \<Rightarrow> (int \<times> int) list" where
  "radix_sort_pairs is_ascend ps = foldr (radix_insert is_ascend) ps []"

definition CUBRadixSort :: "bool \<Rightarrow> int \<Rightarrow> int list \<Rightarrow> int list \<Rightarrow> int list \<times> int list" where
  "CUBRadixSort is_ascend num_elements d_key d_value =
     (let n = nat num_elements;
          ps = radix_sort_pairs is_ascend (zip (take n d_key) (take n d_value))
      in (map fst ps @ drop n d_key, map snd ps @ drop n d_value))"

text \<open>
  \<open>cub::DeviceScan::ExclusiveSum\<close>: with a null workspace the call only reports the
  workspace size and leaves the output alone; with a workspace it writes the
  exclusive prefix sums of the first \<open>num_items\<close> inputs over the first \<open>num_items\<close>
  outputs.
\<close>

fun exclusive_scan :: "int \<Rightarrow> int list \<Rightarrow> int list" where
  "exclusive_scan acc [] = []"
| "exclusive_scan acc (x # xs) = acc # exclusive_scan (acc + x) xs"

definition ExclusiveSum :: "ptr \<Rightarrow> int list \<Rightarrow> int list \<Rightarrow> int \<Rightarrow> int list" where
  "ExclusiveSum d_temp_storage d_in d_out num_items =
     (if d_temp_storage = NULL then d_out
      else exclusive_scan 0 (take (nat num_items) d_in) @ drop (nat num_items) d_out)"

text \<open>
  Modelled from the spec: \<open>util::MemsetCopyVectorKernel\<close> (not among the sources)
  "seeds the frontier with the top-K vertex ids": it copies \<open>length\<close> elements of the
  source array over the start of the destination. Elements the source array does not
  have are not copied.
\<close>

definition MemsetCopyVectorKernel :: "int list \<Rightarrow> int list \<Rightarrow> int \<Rightarrow> int list" where
  "MemsetCopyVectorKernel d_dst d_src len =
     (let k = min (nat len) (length d_src) in take k d_src @ drop k d_dst)"

text \<open>
  Modelled from the spec: \<open>oprtr::advance::LaunchKernel\<close> (not among the sources)
  "expands the current frontier into the inactive buffer". The call receives the
  buffer to read (index \<open>d_in\<close>) and the buffer to write (index \<open>d_out\<close>) and their
  capacities; the kernel's output replaces buffer \<open>d_out\<close>, and the write offset is
  recorded in the work progress under \<open>queue_index + 1\<close>.
\<close>

definition advance_LaunchKernel ::
  "device \<Rightarrow> FrontierAttribute \<Rightarrow> int \<Rightarrow> int \<Rightarrow> int \<Rightarrow> int \<Rightarrow> GraphSlice \<Rightarrow> WorkProgress
     \<Rightarrow> GraphSlice \<times> WorkProgress" where
  "advance_LaunchKernel dev fa d_in d_out max_in max_out gs wp =
     (let frontier = take (nat (queue_length fa)) (buf_at (frontier_queues_d_keys gs) d_in);
          res = advance_kernel dev (d_row_offsets gs) (d_column_indices gs) frontier max_out
      in (gs\<lparr>frontier_queues_d_keys := buf_upd (frontier_queues_d_keys gs) d_out (fst res)\<rparr>,
          wp\<lparr>queue_counters := (queue_counters wp)(queue_index fa + 1 := snd res),
             write_offset := snd res, capacity := max_out\<rparr>))"

subsection \<open>EnactDC\<close>

text \<open>Modelled from the spec: \<open>advance::MODE\<close> (kernel\_policy.cuh is not among the
  sources). The source names \<open>LB\<close>, the "load-balanced/partitioned expansion"; the
  other strategy is the "direct thread-mapped expansion".\<close>

datatype MODE = LB | THREAD_MAPPED

text \<open>The code after the \<open>do { ... } while (0)\<close> block: free the scratch array if it
  is not null, print in debug mode, return the status.\<close>

definition EnactDC_finish ::
  "ptr \<Rightarrow> cudaError_t \<Rightarrow> DCProblem \<Rightarrow> DCEnactor \<Rightarrow> cudaError_t \<times> DCProblem \<times> DCEnactor" where
  "EnactDC_finish d_scanned_edges retval problem s =
     (let s1 = (if d_scanned_edges \<noteq> NULL then record_event CudaFree_scanned_edges s else s);
          s2 = (if DEBUG s1
                then record_event (Printf ''====> GPU Degree Centrality Complete.'') s1 else s1)
      in (retval, problem, s2))"

text \<open>From the debug synchronisation to the overflow check.\<close>

definition EnactDC_readback ::
  "ptr \<Rightarrow> device \<Rightarrow> DCProblem \<Rightarrow> DCEnactor \<Rightarrow> cudaError_t \<times> DCProblem \<times> DCEnactor" where
  "EnactDC_readback d_scanned_edges dev problem s =
     (let s1 = (if DEBUG s
                then record_event (CudaThreadSynchronize (r_cudaThreadSynchronize dev)) s else s);
          r1 = GRError (r_cudaThreadSynchronize dev) ''advance::Kernel failed''
      in if DEBUG s \<and> r1 \<noteq> cudaSuccess then EnactDC_finish d_scanned_edges r1 problem s1
         else
           (let s2 = record_event CudaEventQuery s1;
                s3 = record_event (WorkProgress_GetQueueLength (r_GetQueueLength dev)) s2
            in if r_GetQueueLength dev \<noteq> cudaSuccess
               then EnactDC_finish d_scanned_edges (r_GetQueueLength dev) problem s3
               else
                 (let fa = frontier_attribute s3;
                      s4 = s3\<lparr>frontier_attribute :=
                              fa\<lparr>queue_length :=
                                   GetQueueLength (work_progress s3) (queue_index fa + 1)\<rparr>\<rparr>;
                      top_edges = queue_length (frontier_attribute s4);
                      ds = data_slice problem;
                      problem1 = problem\<lparr>data_slice :=
                         ds\<lparr>d_sub_col_indices :=
                              MemsetCopyVectorKernel (d_sub_col_indices ds)
                                (buf_at (frontier_queues_d_keys (graph_slice problem))
                                   (selector (frontier_attribute s4) XOR 1))
                                top_edges\<rparr>\<rparr>;
                      s5 = record_event Kernel_MemsetCopyVector s4;
                      overflowed = (r_CheckOverflow dev = cudaSuccess
                                    \<and> CheckOverflow (work_progress s5));
                      s6 = record_event
                             (WorkProgress_CheckOverflow (r_CheckOverflow dev) overflowed) s5
                  in if r_CheckOverflow dev \<noteq> cudaSuccess
                     then EnactDC_finish d_scanned_edges (r_CheckOverflow dev) problem1 s6
                     else if overflowed
                     then EnactDC_finish d_scanned_edges
                            (GRError cudaErrorInvalidConfiguration
                               ''Frontier queue overflow. Please increase queus size factor.'')
                            problem1 s6
                     else EnactDC_finish d_scanned_edges (r_CheckOverflow dev) problem1 s6)))"

text \<open>Seeding the frontier queue with the top nodes and the one advance launch.\<close>

definition EnactDC_launch ::
  "ptr \<Rightarrow> int \<Rightarrow> device \<Rightarrow> DCProblem \<Rightarrow> DCEnactor \<Rightarrow> cudaError_t \<times> DCProblem \<times> DCEnactor" where
  "EnactDC_launch d_scanned_edges top_nodes dev problem s =
     (let gs = graph_slice problem;
          sel = selector (frontier_attribute s);
          gs1 = gs\<lparr>frontier_queues_d_keys :=
                  buf_upd (frontier_queues_d_keys gs) sel
                    (MemsetCopyVectorKernel (buf_at (frontier_queues_d_keys gs) sel)
                       (d_node_id (data_slice problem)) top_nodes)\<rparr>;
          s1 = record_event Kernel_MemsetCopyVector s;
          res = advance_LaunchKernel dev (frontier_attribute s1) sel (sel XOR 1)
                  (buf_at (frontier_elements gs1) sel) (buf_at (frontier_elements gs1) (sel XOR 1))
                  gs1 (work_progress s1);
          s2 = record_event (Kernel_Advance sel (sel XOR 1)) (s1\<lparr>work_progress := snd res\<rparr>)
      in EnactDC_readback d_scanned_edges dev (problem\<lparr>graph_slice := fst res\<rparr>) s2)"

text \<open>Resetting the frontier attributes and allocating the scratch array. A failed
  \<open>cudaMalloc\<close> leaves \<open>d_scanned_edges\<close> null and returns at once, past the code
  after the block.\<close>

definition EnactDC_advance ::
  "MODE \<Rightarrow> int \<Rightarrow> device \<Rightarrow> DCProblem \<Rightarrow> DCEnactor \<Rightarrow> cudaError_t \<times> DCProblem \<times> DCEnactor" where
  "EnactDC_advance mode top_nodes dev problem s =
     (let s1 = s\<lparr>frontier_attribute :=
                  \<lparr>queue_length = top_nodes, queue_index = 0, selector = 0, queue_reset = True\<rparr>\<rparr>
      in if mode = LB then
           (let s2 = record_event (CudaMalloc_scanned_edges (r_cudaMalloc_scanned_edges dev)) s1;
                r = GRError (r_cudaMalloc_scanned_edges dev)
                      ''DCProblem cudaMalloc d_scanned_edges failed''
            in if r \<noteq> cudaSuccess then (r, problem, s2)
               else EnactDC_launch Allocated top_nodes dev problem s2)
         else EnactDC_launch NULL top_nodes dev problem s1)"

text \<open>Sorting the node ids by degree and scanning the top degrees. The result of the
  \<open>cudaMalloc\<close> of the scan workspace is not checked by the source.\<close>

definition EnactDC_topk :: "int \<Rightarrow> device \<Rightarrow> DCProblem \<Rightarrow> DCEnactor \<Rightarrow> DCProblem \<times> DCEnactor" where
  "EnactDC_topk top_nodes dev problem s =
     (let ds = data_slice problem;
          sorted_kv = CUBRadixSort False (nodes (graph_slice problem)) (d_degrees ds) (d_node_id ds);
          ds1 = ds\<lparr>d_degrees := fst sorted_kv, d_node_id := snd sorted_kv\<rparr>;
          s1 = record_event Kernel_CUBRadixSort s;
          ds2 = ds1\<lparr>d_sub_row_offsets :=
                  ExclusiveSum NULL (d_degrees ds1) (d_sub_row_offsets ds1) top_nodes\<rparr>;
          s2 = record_event (Cub_ExclusiveSum NULL) s1;
          d_temp_storage = (if r_cudaMalloc_temp_storage dev = cudaSuccess then Allocated else NULL);
          s3 = record_event (CudaMalloc_temp_storage (r_cudaMalloc_temp_storage dev)) s2;
          ds3 = ds2\<lparr>d_sub_row_offsets :=
                  ExclusiveSum d_temp_storage (d_degrees ds2) (d_sub_row_offsets ds2) top_nodes\<rparr>;
          s4 = record_event (Cub_ExclusiveSum d_temp_storage) s3
      in (problem\<lparr>data_slice := ds3\<rparr>, s4))"

definition EnactDC ::
  "MODE \<Rightarrow> device \<Rightarrow> DCProblem \<Rightarrow> int \<Rightarrow> int \<Rightarrow> DCEnactor
     \<Rightarrow> cudaError_t \<times> DCProblem \<times> DCEnactor" where
  "EnactDC ADVANCE_MODE dev problem top_nodes max_grid_size s =
     (let r1 = Setup dev s
      in if fst r1 \<noteq> cudaSuccess then EnactDC_finish NULL (fst r1) problem (snd r1)
         else
           (let s2 = record_event (EnactorBase_Setup max_grid_size (r_EnactorBase_Setup dev))
                       (snd r1)
            in if r_EnactorBase_Setup dev \<noteq> cudaSuccess
               then EnactDC_finish NULL (r_EnactorBase_Setup dev) problem s2
               else
                 (let r3 = EnactDC_topk top_nodes dev problem s2
                  in EnactDC_advance ADVANCE_MODE top_nodes dev (fst r3) (snd r3))))"

subsection \<open>Enact\<close>

text \<open>The one tuned policy pair is for \<open>sm_30\<close>; its advance mode is \<open>LB\<close>.\<close>

definition Enact ::
  "device \<Rightarrow> DCProblem \<Rightarrow> int \<Rightarrow> int \<Rightarrow> DCEnactor \<Rightarrow> cudaError_t \<times> DCProblem \<times> DCEnactor" where
  "Enact dev problem top_nodes max_grid_size s =
     (if 300 \<le> device_sm_version s then EnactDC LB dev problem top_nodes max_grid_size s
      else (cudaErrorInvalidDeviceFunction, problem,
            record_event (Printf ''Not yet tuned for this architecture'') s))"

section \<open>The connected-components application (cc\_app.cu)\<close>

subsection \<open>Interface types\<close>

text \<open>
  The type tags of \<open>GRTypes\<close> (gunrock.h is not among the sources): the enumerators
  the source names, and any other value a tag may hold.
\<close>

datatype VtxIdType = VTXID_INT | VTXID_other nat
datatype SizeTType = SIZET_INT | SIZET_other nat
datatype ValueType = VALUE_INT | VALUE_UINT | VALUE_FLOAT | VALUE_other nat

record GRTypes =
  VTXID_TYPE :: VtxIdType
  SIZET_TYPE :: SizeTType
  VALUE_TYPE :: ValueType

record GRSetup =
  num_devices :: int
  device_list :: "int list"

text \<open>The members of \<open>GRGraph\<close> the source touches; an array pointer is the array.\<close>

record GRGraph =
  num_nodes :: int
  num_edges :: int
  row_offsets :: "int list"
  col_indices :: "int list"
  node_value1 :: "int list"

text \<open>\<open>Csr<int, int, int>\<close>; the members carry the prefix \<open>csr_\<close> to keep them apart
  from those of the graph slice.\<close>

record Csr =
  csr_nodes :: int
  csr_edges :: int
  csr_row_offsets :: "int list"
  csr_column_indices :: "int list"

text \<open>The members of \<open>Test_Parameter\<close> that steer the code of this file. Streams and
  contexts are the indices under which they were created; \<open>context_ptr\<close> is the
  member \<open>context\<close> (an Isar keyword).\<close>

record Test_Parameter =
  context_ptr :: "int list"
  streams :: "int list"
  num_gpus :: int
  gpu_idx :: "int list"
  graph :: "Csr option"
  instrumented :: bool
  debug :: bool
  size_check :: bool

datatype app_event =
    App_printf string
  | SetDevice int
  | CudaStreamCreate int
  | CreateCudaDeviceAttachStream int int
  | RunCC bool bool bool

subsection \<open>The run and its dispatch cascade\<close>

text \<open>
  \<open>runCC\<close> drives \<open>CCProblem\<close> and \<open>CCEnactor\<close>, which are not among the sources:
  \<open>extract\<close>, a parameter, stands for the contents of \<open>h_component_ids\<close> after
  Init, Reset, Enact and Extract. The run stores that array in \<open>output->node_value1\<close>.
\<close>

definition runCC ::
  "(bool \<Rightarrow> bool \<Rightarrow> bool \<Rightarrow> Test_Parameter \<Rightarrow> int list) \<Rightarrow> bool \<Rightarrow> bool \<Rightarrow> bool
     \<Rightarrow> GRGraph \<Rightarrow> Test_Parameter \<Rightarrow> app_event list \<Rightarrow> GRGraph \<times> app_event list" where
  "runCC extract INSTRUMENT DBG SIZE_CHECK output parameter evs =
     (let h_component_ids = extract INSTRUMENT DBG SIZE_CHECK parameter
      in (output\<lparr>node_value1 := h_component_ids\<rparr>,
          evs @ [App_printf ''_________________________'',
                 RunCC INSTRUMENT DBG SIZE_CHECK,
                 App_printf ''-------------------------'',
                 App_printf ''GPU Connected Component finished in %lf msec.'']))"

definition sizeCheckCC ::
  "(bool \<Rightarrow> bool \<Rightarrow> bool \<Rightarrow> Test_Parameter \<Rightarrow> int list) \<Rightarrow> bool \<Rightarrow> bool
     \<Rightarrow> GRGraph \<Rightarrow> Test_Parameter \<Rightarrow> app_event list \<Rightarrow> GRGraph \<times> app_event list" where
  "sizeCheckCC extract INSTRUMENT DBG output parameter evs =
     (if size_check parameter then runCC extract INSTRUMENT DBG True output parameter evs
      else runCC extract INSTRUMENT DBG False output parameter evs)"

definition debugCC ::
  "(bool \<Rightarrow> bool \<Rightarrow> bool \<Rightarrow> Test_Parameter \<Rightarrow> int list) \<Rightarrow> bool
     \<Rightarrow> GRGraph \<Rightarrow> Test_Parameter \<Rightarrow> app_event list \<Rightarrow> GRGraph \<times> app_event list" where
  "debugCC extract INSTRUMENT output parameter evs =
     (if debug parameter then sizeCheckCC extract INSTRUMENT True output parameter evs
      else sizeCheckCC extract INSTRUMENT False output parameter evs)"

definition instrumentedCC ::
  "(bool \<Rightarrow> bool \<Rightarrow> bool \<Rightarrow> Test_Parameter \<Rightarrow> int list)
     \<Rightarrow> GRGraph \<Rightarrow> Test_Parameter \<Rightarrow> app_event list \<Rightarrow> GRGraph \<times> app_event list" where
  "instrumentedCC extract output parameter evs =
     (if instrumented parameter then debugCC extract True output parameter evs
      else debugCC extract False output parameter evs)"

subsection \<open>dispatch\_cc\<close>

text \<open>
  The nested switches on the three type tags. \<open>parameter0\<close> is the freshly constructed
  \<open>Test_Parameter\<close>. The function is \<open>void\<close>: all it gives back is the output graph
  (and what it printed).
\<close>

definition dispatch_cc ::
  "(bool \<Rightarrow> bool \<Rightarrow> bool \<Rightarrow> Test_Parameter \<Rightarrow> int list) \<Rightarrow> Test_Parameter
     \<Rightarrow> GRGraph \<Rightarrow> GRGraph \<Rightarrow> GRSetup \<Rightarrow> GRTypes \<Rightarrow> int list \<Rightarrow> int list \<Rightarrow> app_event list
     \<Rightarrow> GRGraph \<times> app_event list" where
  "dispatch_cc extract parameter0 graph_o graph_i config data_t ctx strms evs =
     (let parameter = parameter0\<lparr>context_ptr := ctx, streams := strms,
                         num_gpus := num_devices config, gpu_idx := device_list config\<rparr>
      in case VTXID_TYPE data_t of
           VTXID_INT \<Rightarrow>
             (case SIZET_TYPE data_t of
                SIZET_INT \<Rightarrow>
                  (case VALUE_TYPE data_t of
                     VALUE_INT \<Rightarrow>
                       (let csr = \<lparr>csr_nodes = num_nodes graph_i, csr_edges = num_edges graph_i,
                                   csr_row_offsets = row_offsets graph_i,
                                   csr_column_indices = col_indices graph_i\<rparr>
                        in instrumentedCC extract graph_o (parameter\<lparr>graph := Some csr\<rparr>) evs)
                   | VALUE_UINT \<Rightarrow>
                       (graph_o, evs @ [App_printf ''Not Yet Support This DataType Combination.''])
                   | VALUE_FLOAT \<Rightarrow>
                       (graph_o, evs @ [App_printf ''Not Yet Support This DataType Combination.''])
                   | VALUE_other _ \<Rightarrow> (graph_o, evs))
              | SIZET_other _ \<Rightarrow> (graph_o, evs))
         | VTXID_other _ \<Rightarrow> (graph_o, evs))"

subsection \<open>gunrock\_cc and cc\<close>

text \<open>The streams and contexts \<open>gunrock_cc\<close> creates for device number \<open>gpu\<close>.\<close>

definition create_streams :: "int \<Rightarrow> int list \<Rightarrow> nat \<Rightarrow> app_event list" where
  "create_streams n idx gpu =
     App_printf '' %d '' # SetDevice (idx ! gpu) #
     concat (map (\<lambda>i. CudaStreamCreate (int gpu * n * 2 + int i) #
                       (if int i < n
                        then [CreateCudaDeviceAttachStream (idx ! gpu) (int gpu * n * 2 + int i)]
                        else []))
               [0 ..< nat (n * 2)])"

definition gunrock_cc ::
  "(bool \<Rightarrow> bool \<Rightarrow> bool \<Rightarrow> Test_Parameter \<Rightarrow> int list) \<Rightarrow> Test_Parameter
     \<Rightarrow> GRGraph \<Rightarrow> GRGraph \<Rightarrow> GRSetup \<Rightarrow> GRTypes \<Rightarrow> app_event list
     \<Rightarrow> GRGraph \<times> app_event list" where
  "gunrock_cc extract parameter0 graph_o graph_i config data_t evs =
     (let n = num_devices config;
          idx = take (nat n) (device_list config);
          strms = map int [0 ..< nat (n * n * 2)];
          ctx = map int [0 ..< nat (n * n)];
          evs1 = evs @ [App_printf '' using %d GPUs:'']
                     @ concat (map (create_streams n idx) [0 ..< nat n])
                     @ [App_printf [CHR 10]]
      in dispatch_cc extract parameter0 graph_o graph_i config data_t ctx strms evs1)"

text \<open>\<open>memcpy\<close> of \<open>n\<close> integers over the start of the caller's array.\<close>

definition memcpy_ints :: "int list \<Rightarrow> int list \<Rightarrow> int \<Rightarrow> int list" where
  "memcpy_ints dst src n = take (nat n) src @ drop (nat n) dst"

text \<open>
  \<open>cc\<close>, the C interface. \<open>graph_o0\<close> is the content of the freshly allocated output
  graph. The result is the returned integer, the caller's \<open>component\<close> array and what
  was printed. \<open>num_components\<close> is an \<open>unsigned int\<close>, returned as \<open>int\<close>.
\<close>

definition cc ::
  "(bool \<Rightarrow> bool \<Rightarrow> bool \<Rightarrow> Test_Parameter \<Rightarrow> int list) \<Rightarrow> Test_Parameter \<Rightarrow> GRGraph
     \<Rightarrow> int list \<Rightarrow> int \<Rightarrow> int \<Rightarrow> int list \<Rightarrow> int list \<Rightarrow> int \<times> int list \<times> app_event list" where
  "cc extract parameter0 graph_o0 component n_nodes n_edges r_offsets c_indices =
     (let evs0 = [App_printf ''-------------------- setting --------------------''];
          data_t = \<lparr>VTXID_TYPE = VTXID_INT, SIZET_TYPE = SIZET_INT, VALUE_TYPE = VALUE_INT\<rparr>;
          list = [0];
          config = \<lparr>num_devices = int (length list), device_list = list\<rparr>;
          num_components = (0 :: 32 word);
          graph_i = \<lparr>num_nodes = n_nodes, num_edges = n_edges, row_offsets = r_offsets,
                     col_indices = c_indices, node_value1 = []\<rparr>;
          evs1 = evs0 @ [App_printf '' loaded %d nodes and %d edges'',
                         App_printf ''-------------------- running --------------------''];
          res = gunrock_cc extract parameter0 graph_o0 graph_i config data_t evs1;
          component1 = memcpy_ints component (node_value1 (fst res)) n_nodes;
          evs2 = snd res @ [App_printf ''------------------- completed -------------------'']
      in (sint num_components, component1, evs2))"

section \<open>Example instances\<close>

text \<open>
  A sample advance kernel, vertex to vertex: it emits the adjacency list of every
  frontier vertex in turn, writes what fits the capacity of the output queue and
  records the full length as its write offset.
\<close>

definition neighbours :: "int list \<Rightarrow> int list \<Rightarrow> int \<Rightarrow> int list" where
  "neighbours ro ci v = take (nat (ro ! nat (v + 1) - ro ! nat v)) (drop (nat (ro ! nat v)) ci)"

definition example_kernel :: "int list \<Rightarrow> int list \<Rightarrow> int list \<Rightarrow> int \<Rightarrow> int list \<times> int" where
  "example_kernel ro ci frontier cap =
     (let out = concat (map (neighbours ro ci) frontier)
      in (take (nat cap) out, int (length out)))"

text \<open>A device on which every runtime call succeeds.\<close>

definition dev_ok :: device where
  "dev_ok = \<lparr>r_cudaHostAlloc = cudaSuccess, r_cudaHostGetDevicePointer = cudaSuccess,
     r_cudaEventCreateWithFlags = cudaSuccess, r_cudaBindTexture = cudaSuccess,
     r_cudaThreadSynchronize = cudaSuccess, r_EnactorBase_Setup = cudaSuccess,
     r_cudaMalloc_temp_storage = cudaSuccess, r_cudaMalloc_scanned_edges = cudaSuccess,
     r_GetQueueLength = cudaSuccess, r_CheckOverflow = cudaSuccess,
     advance_kernel = example_kernel\<rparr>"

text \<open>A device on which the pinned allocation fails.\<close>

definition dev_no_host_memory :: device where
  "dev_no_host_memory = dev_ok\<lparr>r_cudaHostAlloc := cudaErrorMemoryAllocation\<rparr>"

text \<open>A freshly constructed enactor on an \<open>sm_30\<close> device, and one on an older device.\<close>

definition enactor0 :: DCEnactor where
  "enactor0 = DCEnactor_new False 300 0 0
     \<lparr>queue_length = 0, queue_index = 0, selector = 0, queue_reset = False\<rparr>
     \<lparr>queue_counters = (\<lambda>i. 0), write_offset = 0, capacity = 0\<rparr>"

definition enactor_sm20 :: DCEnactor where
  "enactor_sm20 = enactor0\<lparr>device_sm_version := 200\<rparr>"

text \<open>
  The five-node graph of the top-K example, with degrees 1, 3, 2, 4, 0. Both frontier
  queues hold ten ids; in \<open>problem5_small\<close> the output queue holds three.
\<close>

definition problem5 :: DCProblem where
  "problem5 =
     \<lparr>graph_slice =
        \<lparr>nodes = 5, edges = 10,
         d_row_offsets = [0, 1, 4, 6, 10, 10],
         d_column_indices = [3, 0, 2, 3, 1, 3, 0, 1, 2, 4],
         frontier_queues_d_keys = (replicate 10 (- 1), replicate 10 (- 1)),
         frontier_elements = (10, 10)\<rparr>,
      data_slice =
        \<lparr>d_degrees = [1, 3, 2, 4, 0], d_node_id = [0, 1, 2, 3, 4],
         d_sub_row_offsets = [- 1, - 1], d_sub_col_indices = replicate 10 (- 1)\<rparr>\<rparr>"

definition problem5_small :: DCProblem where
  "problem5_small =
     problem5\<lparr>graph_slice := (graph_slice problem5)\<lparr>frontier_elements := (10, 3)\<rparr>\<rparr>"

text \<open>A default \<open>Test_Parameter\<close>, an output graph and an array of extracted labels.\<close>

definition parameter_default :: Test_Parameter where
  "parameter_default = \<lparr>context_ptr = [], streams = [], num_gpus = 1, gpu_idx = [],
     graph = None, instrumented = False, debug = False, size_check = True\<rparr>"

definition graph_empty :: GRGraph where
  "graph_empty = \<lparr>num_nodes = 0, num_edges = 0, row_offsets = [], col_indices = [],
     node_value1 = []\<rparr>"

definition extract_two_triangles ::
  "bool \<Rightarrow> bool \<Rightarrow> bool \<Rightarrow> Test_Parameter \<Rightarrow> int list" where
  "extract_two_triangles i d c parameter = [0, 0, 0, 3, 3, 3]"

text \<open>Two tag combinations: the supported one, and one with float values.\<close>

definition types_int_int_int :: GRTypes where
  "types_int_int_int = \<lparr>VTXID_TYPE = VTXID_INT, SIZET_TYPE = SIZET_INT, VALUE_TYPE = VALUE_INT\<rparr>"

definition types_int_int_float :: GRTypes where
  "types_int_int_float =
     \<lparr>VTXID_TYPE = VTXID_INT, SIZET_TYPE = SIZET_INT, VALUE_TYPE = VALUE_FLOAT\<rparr>"

text \<open>An enactor whose counters hold 3 units of run time in 4 of life time, 7 queued
  items and 5 iterations.\<close>

definition enactor_counted :: DCEnactor where
  "enactor_counted =
     enactor0\<lparr>total_runtimes := 3, total_lifetimes := 4, total_queued := 7, iteration := 5\<rparr>"

section \<open>Properties of the enactor's life cycle\<close>

lemma trace_record_event [simp]: "trace (record_event ev s) = trace s @ [ev]"
  and done_record_event [simp]: "done_ptr (record_event ev s) = done_ptr s"
  and d_done_record_event [simp]: "d_done (record_event ev s) = d_done s"
  and throttle_record_event [simp]: "throttle_event (record_event ev s) = throttle_event s"
  and DEBUG_record_event [simp]: "DEBUG (record_event ev s) = DEBUG s"
  and fa_record_event [simp]: "frontier_attribute (record_event ev s) = frontier_attribute s"
  and wp_record_event [simp]: "work_progress (record_event ev s) = work_progress s"
  and sm_record_event [simp]: "device_sm_version (record_event ev s) = device_sm_version s"
  by (simp_all add: record_event_def)

subsection \<open>Setup\<close>

lemma Setup_done_set:
  assumes "done_ptr s \<noteq> NULL"
  shows "Setup dev s =
    (r_cudaBindTexture dev, record_event (CudaBindTexture (r_cudaBindTexture dev)) s)"
  using assms by (simp add: Setup_def Setup_bind_def GRError_def)

lemma Setup_calls_done_set:
  assumes "done_ptr s \<noteq> NULL"
  shows "trace (Setup_calls devs s) =
           trace s @ map (\<lambda>d. CudaBindTexture (r_cudaBindTexture d)) devs
       \<and> done_ptr (Setup_calls devs s) = done_ptr s
       \<and> d_done (Setup_calls devs s) = d_done s
       \<and> throttle_event (Setup_calls devs s) = throttle_event s"
  using assms
proof (induction devs arbitrary: s)
  case Nil
  then show ?case by simp
next
  case (Cons dev devs)
  let ?s1 = "record_event (CudaBindTexture (r_cudaBindTexture dev)) s"
  have step: "Setup_calls (dev # devs) s = Setup_calls devs ?s1"
    by (simp add: Setup_done_set [OF Cons.prems])
  have "done_ptr ?s1 \<noteq> NULL" using Cons.prems by simp
  from Cons.IH [OF this] show ?case unfolding step by simp
qed

lemma Setup_done_null_success:
  assumes "done_ptr s = NULL" and "fst (Setup dev s) = cudaSuccess"
  shows "trace (snd (Setup dev s)) =
           trace s @ [CudaHostAlloc cudaSuccess, CudaHostGetDevicePointer cudaSuccess,
                      CudaEventCreateWithFlags cudaSuccess, CudaBindTexture cudaSuccess]
       \<and> done_ptr (snd (Setup dev s)) = Allocated
       \<and> d_done (snd (Setup dev s)) = Allocated
       \<and> throttle_event (snd (Setup dev s)) = Allocated"
  using assms
  by (simp add: Setup_def Setup_bind_def GRError_def Let_def split: if_splits)

lemma Setup_done_null_first:
  assumes "done_ptr s = NULL"
  shows "\<exists>evs. trace (snd (Setup dev s)) = trace s @ CudaHostAlloc (r_cudaHostAlloc dev) # evs"
  using assms by (simp add: Setup_def Setup_bind_def GRError_def Let_def)

text \<open>One call adds at most one successful allocation of either resource, and only by
  turning a null \<open>done\<close> into a non-null one.\<close>

lemma Setup_alloc_step:
  assumes "ev = CudaHostAlloc cudaSuccess \<or> ev = CudaEventCreateWithFlags cudaSuccess"
  shows "count_list (trace (snd (Setup dev s))) ev = count_list (trace s) ev
       \<or> (count_list (trace (snd (Setup dev s))) ev = count_list (trace s) ev + 1
          \<and> done_ptr s = NULL \<and> done_ptr (snd (Setup dev s)) \<noteq> NULL)"
  using assms by (auto simp add: Setup_def Setup_bind_def GRError_def Let_def)

lemma Setup_calls_at_most_once:
  assumes "ev = CudaHostAlloc cudaSuccess \<or> ev = CudaEventCreateWithFlags cudaSuccess"
  shows "count_list (trace (Setup_calls devs s)) ev
           \<le> count_list (trace s) ev + (if done_ptr s = NULL then 1 else 0)"
proof (induction devs arbitrary: s)
  case Nil
  then show ?case by simp
next
  case (Cons dev devs)
  show ?case
  proof (cases "done_ptr s = NULL")
    case False
    then show ?thesis
      using Setup_calls_done_set [of s "dev # devs"] assms by (auto simp: count_list_0_iff)
  next
    case True
    from Setup_alloc_step [OF assms, of dev s] show ?thesis
    proof
      assume same: "count_list (trace (snd (Setup dev s))) ev = count_list (trace s) ev"
      show ?thesis
        using Cons.IH [of "snd (Setup dev s)"] same True by (simp split: if_splits)
    next
      assume more: "count_list (trace (snd (Setup dev s))) ev = count_list (trace s) ev + 1
          \<and> done_ptr s = NULL \<and> done_ptr (snd (Setup dev s)) \<noteq> NULL"
      then show ?thesis
        using Cons.IH [of "snd (Setup dev s)"] by simp
    qed
  qed
qed

text \<open>
  Claim C4. \<open>Setup\<close> allocates only when \<open>done\<close> is null. Called with a null \<open>done\<close>
  it starts with the pinned allocation, and when it succeeds it has allocated the flag,
  mapped it and created the throttle event, leaving \<open>done\<close> non-null. Called with a
  non-null \<open>done\<close>, any number of times, it only binds the texture again: no
  allocation, and \<open>done\<close>, \<open>d_done\<close> and the event are unchanged. Over any sequence
  of calls, whatever the device answers, each resource is successfully allocated at
  most once more, and not at all when \<open>done\<close> is already set.
\<close>

theorem Setup_idempotent:
  "(done_ptr s = NULL \<longrightarrow>
      (\<exists>evs. trace (snd (Setup dev s)) = trace s @ CudaHostAlloc (r_cudaHostAlloc dev) # evs))
   \<and> (done_ptr s = NULL \<and> fst (Setup dev s) = cudaSuccess \<longrightarrow>
        trace (snd (Setup dev s)) =
          trace s @ [CudaHostAlloc cudaSuccess, CudaHostGetDevicePointer cudaSuccess,
                     CudaEventCreateWithFlags cudaSuccess, CudaBindTexture cudaSuccess]
        \<and> done_ptr (snd (Setup dev s)) = Allocated
        \<and> d_done (snd (Setup dev s)) = Allocated
        \<and> throttle_event (snd (Setup dev s)) = Allocated)
   \<and> (done_ptr s \<noteq> NULL \<longrightarrow>
        trace (Setup_calls devs s) =
          trace s @ map (\<lambda>d. CudaBindTexture (r_cudaBindTexture d)) devs
        \<and> done_ptr (Setup_calls devs s) = done_ptr s
        \<and> d_done (Setup_calls devs s) = d_done s
        \<and> throttle_event (Setup_calls devs s) = throttle_event s)
   \<and> count_list (trace (Setup_calls devs s)) (CudaHostAlloc cudaSuccess)
        \<le> count_list (trace s) (CudaHostAlloc cudaSuccess) + (if done_ptr s = NULL then 1 else 0)
   \<and> count_list (trace (Setup_calls devs s)) (CudaEventCreateWithFlags cudaSuccess)
        \<le> count_list (trace s) (CudaEventCreateWithFlags cudaSuccess)
             + (if done_ptr s = NULL then 1 else 0)"
  using Setup_done_null_first [of s dev] Setup_done_null_success [of s dev]
    Setup_calls_done_set [of s devs]
    Setup_calls_at_most_once [of "CudaHostAlloc cudaSuccess" devs s]
    Setup_calls_at_most_once [of "CudaEventCreateWithFlags cudaSuccess" devs s]
  by blast

theorem Setup_idempotent_witness:
  "done_ptr enactor0 = NULL \<and> fst (Setup dev_ok enactor0) = cudaSuccess
   \<and> done_ptr (snd (Setup dev_ok enactor0)) \<noteq> NULL
   \<and> trace (snd (Setup dev_ok enactor0)) =
        [CudaHostAlloc cudaSuccess, CudaHostGetDevicePointer cudaSuccess,
         CudaEventCreateWithFlags cudaSuccess, CudaBindTexture cudaSuccess]
   \<and> trace (Setup_calls [dev_ok, dev_ok] (snd (Setup dev_ok enactor0))) =
        [CudaHostAlloc cudaSuccess, CudaHostGetDevicePointer cudaSuccess,
         CudaEventCreateWithFlags cudaSuccess, CudaBindTexture cudaSuccess,
         CudaBindTexture cudaSuccess, CudaBindTexture cudaSuccess]
   \<and> trace (Setup_calls [dev_no_host_memory, dev_ok, dev_ok] enactor0) =
        [CudaHostAlloc cudaErrorMemoryAllocation,
         CudaHostAlloc cudaSuccess, CudaHostGetDevicePointer cudaSuccess,
         CudaEventCreateWithFlags cudaSuccess, CudaBindTexture cudaSuccess,
         CudaBindTexture cudaSuccess]"
proof -
  have n: "done_ptr enactor0 = NULL"
    by (simp add: enactor0_def DCEnactor_new_def)
  have t0: "trace enactor0 = []"
    by (simp add: enactor0_def DCEnactor_new_def)
  have f: "trace (Setup_calls [dev_no_host_memory, dev_ok, dev_ok] enactor0) =
        [CudaHostAlloc cudaErrorMemoryAllocation,
         CudaHostAlloc cudaSuccess, CudaHostGetDevicePointer cudaSuccess,
         CudaEventCreateWithFlags cudaSuccess, CudaBindTexture cudaSuccess,
         CudaBindTexture cudaSuccess]"
    by code_simp
  have ok: "fst (Setup dev_ok enactor0) = cudaSuccess"
    by (simp add: Setup_def Setup_bind_def GRError_def Let_def n dev_ok_def)
  have b: "r_cudaBindTexture dev_ok = cudaSuccess"
    by (simp add: dev_ok_def)
  from Setup_idempotent [of enactor0 dev_ok "[]"] n ok t0
  have first: "trace (snd (Setup dev_ok enactor0)) =
          [CudaHostAlloc cudaSuccess, CudaHostGetDevicePointer cudaSuccess,
           CudaEventCreateWithFlags cudaSuccess, CudaBindTexture cudaSuccess]"
    and d: "done_ptr (snd (Setup dev_ok enactor0)) = Allocated"
    by simp_all
  from d have d': "done_ptr (snd (Setup dev_ok enactor0)) \<noteq> NULL" by simp
  from Setup_idempotent [of "snd (Setup dev_ok enactor0)" dev_ok "[dev_ok, dev_ok]"] d' first b
  have "trace (Setup_calls [dev_ok, dev_ok] (snd (Setup dev_ok enactor0))) =
        [CudaHostAlloc cudaSuccess, CudaHostGetDevicePointer cudaSuccess,
         CudaEventCreateWithFlags cudaSuccess, CudaBindTexture cudaSuccess,
         CudaBindTexture cudaSuccess, CudaBindTexture cudaSuccess]"
    by simp
  with n ok d' first f show ?thesis by simp
qed

subsection \<open>Destructor\<close>






subsection \<open>GetStatistics\<close>

lemma sint_scast_in_range:
  fixes w :: "'a::len word"
  assumes "- (2 ^ (LENGTH('b::len) - 1)) \<le> sint w" and "sint w < 2 ^ (LENGTH('b) - 1)"
  shows "sint (scast w :: 'b word) = sint w"
proof -
  have "sint (scast w :: 'b word) = signed_take_bit (LENGTH('b) - 1) (sint w)"
    unfolding scast_eq by (rule sint_sbintrunc')
  also have "\<dots> = sint w"
    using assms by (simp only: signed_take_bit_int_eq_self)
  finally show ?thesis .
qed

lemma sint_small:
  fixes w :: "64 word"
  assumes "unat w < 2 ^ 63"
  shows "sint w = int (unat w)"
proof -
  have "int (unat w) < 2 ^ 63"
    using assms by (metis of_nat_less_iff of_nat_numeral of_nat_power)
  then have u: "uint w < 2 ^ 63"
    by simp
  have "- (2 ^ 63) \<le> uint w"
    by (rule order_trans [of _ 0]) simp_all
  with u have "signed_take_bit 63 (uint w) = uint w"
    by (simp only: signed_take_bit_int_eq_self)
  moreover have "sint w = signed_take_bit 63 (uint w)"
    using sint_uint [of w] by simp
  ultimately show ?thesis
    by simp
qed

text \<open>
  Claim C5. \<open>GetStatistics\<close> synchronises the device and does nothing else to the
  enactor; the values it gives back are read after that. They are the cumulative
  queued count, the iteration counter converted to the caller's \<open>VertexId\<close> (the same
  number whenever it fits that type) and the average duty: the double-precision
  quotient of \<open>total_runtimes\<close> by \<open>total_lifetimes\<close> when \<open>total_lifetimes\<close> is
  positive, and exactly zero otherwise.
\<close>

theorem GetStatistics_results:
  fixes to_double :: "64 word \<Rightarrow> 'd" and ddiv :: "'d \<Rightarrow> 'd \<Rightarrow> 'd" and dzero :: 'd
    and dev :: device and s :: DCEnactor
  defines "r \<equiv> (GetStatistics to_double ddiv dzero dev s :: ('v::len word, 'd) statistics \<times> DCEnactor)"
  shows "snd r = record_event (CudaThreadSynchronize (r_cudaThreadSynchronize dev)) s
   \<and> trace (snd r) = trace s @ [CudaThreadSynchronize (r_cudaThreadSynchronize dev)]
   \<and> out_total_queued (fst r) = total_queued s
   \<and> (unat (total_queued s) < 2 ^ 63 \<longrightarrow>
        sint (out_total_queued (fst r)) = int (unat (total_queued s)))
   \<and> out_search_depth (fst r) = scast (iteration s)
   \<and> (- (2 ^ (LENGTH('v) - 1)) \<le> sint (iteration s) \<and> sint (iteration s) < 2 ^ (LENGTH('v) - 1)
        \<longrightarrow> sint (out_search_depth (fst r)) = sint (iteration s))
   \<and> (0 < total_lifetimes s \<longrightarrow>
        out_avg_duty (fst r) = ddiv (to_double (total_runtimes s)) (to_double (total_lifetimes s)))
   \<and> (\<not> 0 < total_lifetimes s \<longrightarrow> out_avg_duty (fst r) = dzero)"
proof -
  have a: "snd r = record_event (CudaThreadSynchronize (r_cudaThreadSynchronize dev)) s"
    and b: "out_total_queued (fst r) = total_queued s"
    and c: "out_search_depth (fst r) = scast (iteration s)"
    and d: "out_avg_duty (fst r) =
      (if 0 < total_lifetimes s
       then ddiv (to_double (total_runtimes s)) (to_double (total_lifetimes s)) else dzero)"
    unfolding r_def by (simp_all add: GetStatistics_def Let_def record_event_def)
  show ?thesis
    unfolding a b c d
    using sint_small [of "total_queued s"] sint_scast_in_range [of "iteration s", where 'b = 'v]
    by simp
qed

theorem GetStatistics_results_witness:
  "0 < total_lifetimes enactor_counted
   \<and> unat (total_queued enactor_counted) < 2 ^ 63
   \<and> - (2 ^ (LENGTH(32) - 1)) \<le> sint (iteration enactor_counted)
   \<and> sint (iteration enactor_counted) < 2 ^ (LENGTH(32) - 1)
   \<and> trace (snd (GetStatistics (\<lambda>w. real (unat w)) (/) 0 dev_ok enactor_counted
                  :: (32 word, real) statistics \<times> DCEnactor))
       = [CudaThreadSynchronize cudaSuccess]
   \<and> sint (out_total_queued (fst (GetStatistics (\<lambda>w. real (unat w)) (/) 0 dev_ok enactor_counted
                  :: (32 word, real) statistics \<times> DCEnactor))) = 7
   \<and> sint (out_search_depth (fst (GetStatistics (\<lambda>w. real (unat w)) (/) 0 dev_ok enactor_counted
                  :: (32 word, real) statistics \<times> DCEnactor))) = 5
   \<and> out_avg_duty (fst (GetStatistics (\<lambda>w. real (unat w)) (/) 0 dev_ok enactor_counted
                  :: (32 word, real) statistics \<times> DCEnactor)) = 3 / 4"
proof -
  have f: "total_lifetimes enactor_counted = 4" "total_runtimes enactor_counted = 3"
    "total_queued enactor_counted = 7" "iteration enactor_counted = 5"
    "trace enactor_counted = []"
    by (simp_all add: enactor_counted_def enactor0_def DCEnactor_new_def)
  have s: "r_cudaThreadSynchronize dev_ok = cudaSuccess"
    by (simp add: dev_ok_def)
  from GetStatistics_results [of "\<lambda>w. real (unat w)" "(/)" 0 dev_ok enactor_counted,
      where 'v = 32]
  show ?thesis
    by (simp add: f s)
qed

section \<open>Properties of EnactDC and Enact\<close>

subsection \<open>The stages of EnactDC\<close>

lemma finish_retval [simp]: "fst (EnactDC_finish p r pr s) = r"
  and finish_problem [simp]: "fst (snd (EnactDC_finish p r pr s)) = pr"
  and finish_trace [simp]: "trace (snd (snd (EnactDC_finish p r pr s))) = trace s @
      (if p \<noteq> NULL then [CudaFree_scanned_edges] else []) @
      (if DEBUG s then [Printf ''====> GPU Degree Centrality Complete.''] else [])"
  by (simp_all add: EnactDC_finish_def Let_def)

lemma readback_trace:
  "trace (snd (snd (EnactDC_readback p dev pr s))) = trace s @
    (if DEBUG s then [CudaThreadSynchronize (r_cudaThreadSynchronize dev)] else []) @
    (if DEBUG s \<and> r_cudaThreadSynchronize dev \<noteq> cudaSuccess then []
     else [CudaEventQuery, WorkProgress_GetQueueLength (r_GetQueueLength dev)] @
       (if r_GetQueueLength dev \<noteq> cudaSuccess then []
        else [Kernel_MemsetCopyVector,
              WorkProgress_CheckOverflow (r_CheckOverflow dev)
                (r_CheckOverflow dev = cudaSuccess \<and> CheckOverflow (work_progress s))])) @
    (if p \<noteq> NULL then [CudaFree_scanned_edges] else []) @
    (if DEBUG s then [Printf ''====> GPU Degree Centrality Complete.''] else [])"
  by (simp add: EnactDC_readback_def Let_def GRError_def)


lemma readback_problem:
  "fst (snd (EnactDC_readback p dev pr s)) =
    (if (DEBUG s \<and> r_cudaThreadSynchronize dev \<noteq> cudaSuccess) \<or> r_GetQueueLength dev \<noteq> cudaSuccess
     then pr
     else pr\<lparr>data_slice := (data_slice pr)\<lparr>d_sub_col_indices :=
            MemsetCopyVectorKernel (d_sub_col_indices (data_slice pr))
              (buf_at (frontier_queues_d_keys (graph_slice pr))
                 (selector (frontier_attribute s) XOR 1))
              (GetQueueLength (work_progress s) (queue_index (frontier_attribute s) + 1))\<rparr>\<rparr>)"
  by (simp add: EnactDC_readback_def Let_def GRError_def)



lemma readback_wp [simp]:
  "work_progress (snd (snd (EnactDC_readback p dev pr s))) = work_progress s"
  by (simp add: EnactDC_readback_def EnactDC_finish_def Let_def)

lemma launch_wp:
  "work_progress (snd (snd (EnactDC_launch p top_nodes dev pr s))) =
     snd (advance_LaunchKernel dev (frontier_attribute s)
            (selector (frontier_attribute s)) (selector (frontier_attribute s) XOR 1)
            (buf_at (frontier_elements (graph_slice pr)) (selector (frontier_attribute s)))
            (buf_at (frontier_elements (graph_slice pr)) (selector (frontier_attribute s) XOR 1))
            ((graph_slice pr)\<lparr>frontier_queues_d_keys :=
                  buf_upd (frontier_queues_d_keys (graph_slice pr)) (selector (frontier_attribute s))
                    (MemsetCopyVectorKernel
                       (buf_at (frontier_queues_d_keys (graph_slice pr)) (selector (frontier_attribute s)))
                       (d_node_id (data_slice pr)) top_nodes)\<rparr>)
            (work_progress s))"
  by (simp add: EnactDC_launch_def Let_def)

lemma launch_trace:
  "trace (snd (snd (EnactDC_launch p top_nodes dev pr s))) = trace s @
    [Kernel_MemsetCopyVector,
     Kernel_Advance (selector (frontier_attribute s)) (selector (frontier_attribute s) XOR 1)] @
    (if DEBUG s then [CudaThreadSynchronize (r_cudaThreadSynchronize dev)] else []) @
    (if DEBUG s \<and> r_cudaThreadSynchronize dev \<noteq> cudaSuccess then []
     else [CudaEventQuery, WorkProgress_GetQueueLength (r_GetQueueLength dev)] @
       (if r_GetQueueLength dev \<noteq> cudaSuccess then []
        else [Kernel_MemsetCopyVector,
              WorkProgress_CheckOverflow (r_CheckOverflow dev)
                (r_CheckOverflow dev = cudaSuccess \<and>
                 CheckOverflow (work_progress (snd (snd (EnactDC_launch p top_nodes dev pr s)))))])) @
    (if p \<noteq> NULL then [CudaFree_scanned_edges] else []) @
    (if DEBUG s then [Printf ''====> GPU Degree Centrality Complete.''] else [])"
  unfolding launch_wp
  by (simp add: EnactDC_launch_def Let_def readback_trace)


lemma Setup_fields [simp]:
  "DEBUG (snd (Setup dev s)) = DEBUG s"
  "work_progress (snd (Setup dev s)) = work_progress s"
  "frontier_attribute (snd (Setup dev s)) = frontier_attribute s"
  by (simp_all add: Setup_def Setup_bind_def Let_def)

lemma Setup_trace:
  "\<exists>se. trace (snd (Setup dev s)) = trace s @ se
        \<and> set se \<subseteq> range CudaHostAlloc \<union> range CudaHostGetDevicePointer
                   \<union> range CudaEventCreateWithFlags \<union> range CudaBindTexture"
  by (simp add: Setup_def Setup_bind_def Let_def)

lemma topk_fields [simp]:
  "DEBUG (snd (EnactDC_topk top_nodes dev pr s)) = DEBUG s"
  "work_progress (snd (EnactDC_topk top_nodes dev pr s)) = work_progress s"
  "frontier_attribute (snd (EnactDC_topk top_nodes dev pr s)) = frontier_attribute s"
  "trace (snd (EnactDC_topk top_nodes dev pr s)) = trace s @
     [Kernel_CUBRadixSort, Cub_ExclusiveSum NULL,
      CudaMalloc_temp_storage (r_cudaMalloc_temp_storage dev),
      Cub_ExclusiveSum (if r_cudaMalloc_temp_storage dev = cudaSuccess then Allocated else NULL)]"
  by (simp_all add: EnactDC_topk_def Let_def)

lemma advance_trace:
  "trace (snd (snd (EnactDC_advance mode top_nodes dev pr s))) = trace s @
    (if mode = LB then [CudaMalloc_scanned_edges (r_cudaMalloc_scanned_edges dev)] else []) @
    (if mode = LB \<and> r_cudaMalloc_scanned_edges dev \<noteq> cudaSuccess then []
     else
      [Kernel_MemsetCopyVector, Kernel_Advance 0 1] @
      (if DEBUG s then [CudaThreadSynchronize (r_cudaThreadSynchronize dev)] else []) @
      (if DEBUG s \<and> r_cudaThreadSynchronize dev \<noteq> cudaSuccess then []
       else [CudaEventQuery, WorkProgress_GetQueueLength (r_GetQueueLength dev)] @
         (if r_GetQueueLength dev \<noteq> cudaSuccess then []
          else [Kernel_MemsetCopyVector,
                WorkProgress_CheckOverflow (r_CheckOverflow dev)
                  (r_CheckOverflow dev = cudaSuccess \<and>
                   CheckOverflow (work_progress (snd (snd (EnactDC_advance mode top_nodes dev pr s)))))])) @
      (if mode = LB then [CudaFree_scanned_edges] else []) @
      (if DEBUG s then [Printf ''====> GPU Degree Centrality Complete.''] else []))"
  by (simp add: EnactDC_advance_def Let_def GRError_def launch_trace)



lemma EnactDC_trace:
  "\<exists>se. set se \<subseteq> range CudaHostAlloc \<union> range CudaHostGetDevicePointer
                   \<union> range CudaEventCreateWithFlags \<union> range CudaBindTexture
      \<and> trace (snd (snd (EnactDC mode dev pr top_nodes mgs s))) = trace s @ se @
    (if fst (Setup dev s) \<noteq> cudaSuccess
     then (if DEBUG s then [Printf ''====> GPU Degree Centrality Complete.''] else [])
     else [EnactorBase_Setup mgs (r_EnactorBase_Setup dev)] @
      (if r_EnactorBase_Setup dev \<noteq> cudaSuccess
       then (if DEBUG s then [Printf ''====> GPU Degree Centrality Complete.''] else [])
       else
        [Kernel_CUBRadixSort, Cub_ExclusiveSum NULL,
         CudaMalloc_temp_storage (r_cudaMalloc_temp_storage dev),
         Cub_ExclusiveSum (if r_cudaMalloc_temp_storage dev = cudaSuccess then Allocated else NULL)] @
        (if mode = LB then [CudaMalloc_scanned_edges (r_cudaMalloc_scanned_edges dev)] else []) @
        (if mode = LB \<and> r_cudaMalloc_scanned_edges dev \<noteq> cudaSuccess then []
         else
          [Kernel_MemsetCopyVector, Kernel_Advance 0 1] @
          (if DEBUG s then [CudaThreadSynchronize (r_cudaThreadSynchronize dev)] else []) @
          (if DEBUG s \<and> r_cudaThreadSynchronize dev \<noteq> cudaSuccess then []
           else [CudaEventQuery, WorkProgress_GetQueueLength (r_GetQueueLength dev)] @
             (if r_GetQueueLength dev \<noteq> cudaSuccess then []
              else [Kernel_MemsetCopyVector,
                    WorkProgress_CheckOverflow (r_CheckOverflow dev)
                      (r_CheckOverflow dev = cudaSuccess \<and>
                       CheckOverflow (work_progress (snd (snd (EnactDC mode dev pr top_nodes mgs s)))))])) @
          (if mode = LB then [CudaFree_scanned_edges] else []) @
          (if DEBUG s then [Printf ''====> GPU Degree Centrality Complete.''] else []))))"
proof -
  obtain se where se: "trace (snd (Setup dev s)) = trace s @ se"
    "set se \<subseteq> range CudaHostAlloc \<union> range CudaHostGetDevicePointer
                   \<union> range CudaEventCreateWithFlags \<union> range CudaBindTexture"
    using Setup_trace by blast
  show ?thesis
    apply (rule exI [of _ se])
    apply (rule conjI [OF se(2)])
    apply (simp add: EnactDC_def Let_def advance_trace se(1))
    done
qed


lemma setup_events_disjoint:
  assumes "set se \<subseteq> range CudaHostAlloc \<union> range CudaHostGetDevicePointer
                   \<union> range CudaEventCreateWithFlags \<union> range CudaBindTexture"
  shows "CudaMalloc_scanned_edges r \<notin> set se" "CudaFree_scanned_edges \<notin> set se"
    "Kernel_Advance a b \<notin> set se" "WorkProgress_CheckOverflow c d \<notin> set se"
    "Kernel_MemsetCopyVector \<notin> set se" "Kernel_CUBRadixSort \<notin> set se"
  using assms by auto

text \<open>What one call of \<open>EnactDC\<close> adds to the record of device calls.\<close>

lemma EnactDC_events:
  "\<exists>evs. trace (snd (snd (EnactDC mode dev pr top_nodes mgs s))) = trace s @ evs
     \<and> (\<forall>r w. Kernel_Advance r w \<in> set evs \<longrightarrow> r = 0 \<and> w = 1)
     \<and> count_list evs (Kernel_Advance 0 1) \<le> 1
     \<and> (\<forall>r. CudaMalloc_scanned_edges r \<in> set evs \<longrightarrow> mode = LB)
     \<and> (CudaMalloc_scanned_edges cudaSuccess \<in> set evs \<longleftrightarrow> CudaFree_scanned_edges \<in> set evs)
     \<and> count_list evs CudaFree_scanned_edges \<le> 1
     \<and> (Kernel_Advance 0 1 \<in> set evs \<longrightarrow>
          fst (Setup dev s) = cudaSuccess \<and> r_EnactorBase_Setup dev = cudaSuccess
          \<and> \<not> (mode = LB \<and> r_cudaMalloc_scanned_edges dev \<noteq> cudaSuccess))
     \<and> (\<forall>r b. WorkProgress_CheckOverflow r b \<in> set evs \<longrightarrow>
          count_list evs (Kernel_Advance 0 1) = 1
          \<and> fst (Setup dev s) = cudaSuccess \<and> r_EnactorBase_Setup dev = cudaSuccess
          \<and> \<not> (mode = LB \<and> r_cudaMalloc_scanned_edges dev \<noteq> cudaSuccess)
          \<and> \<not> (DEBUG s \<and> r_cudaThreadSynchronize dev \<noteq> cudaSuccess)
          \<and> r_GetQueueLength dev = cudaSuccess
          \<and> r = r_CheckOverflow dev
          \<and> b = (r_CheckOverflow dev = cudaSuccess
                 \<and> CheckOverflow (work_progress (snd (snd (EnactDC mode dev pr top_nodes mgs s))))))"
proof -
  from EnactDC_trace [of mode dev pr top_nodes mgs s]
  obtain se where se: "set se \<subseteq> range CudaHostAlloc \<union> range CudaHostGetDevicePointer
                   \<union> range CudaEventCreateWithFlags \<union> range CudaBindTexture"
    and tr: "trace (snd (snd (EnactDC mode dev pr top_nodes mgs s))) = trace s @ se @
    (if fst (Setup dev s) \<noteq> cudaSuccess
     then (if DEBUG s then [Printf ''====> GPU Degree Centrality Complete.''] else [])
     else [EnactorBase_Setup mgs (r_EnactorBase_Setup dev)] @
      (if r_EnactorBase_Setup dev \<noteq> cudaSuccess
       then (if DEBUG s then [Printf ''====> GPU Degree Centrality Complete.''] else [])
       else
        [Kernel_CUBRadixSort, Cub_ExclusiveSum NULL,
         CudaMalloc_temp_storage (r_cudaMalloc_temp_storage dev),
         Cub_ExclusiveSum (if r_cudaMalloc_temp_storage dev = cudaSuccess then Allocated else NULL)] @
        (if mode = LB then [CudaMalloc_scanned_edges (r_cudaMalloc_scanned_edges dev)] else []) @
        (if mode = LB \<and> r_cudaMalloc_scanned_edges dev \<noteq> cudaSuccess then []
         else
          [Kernel_MemsetCopyVector, Kernel_Advance 0 1] @
          (if DEBUG s then [CudaThreadSynchronize (r_cudaThreadSynchronize dev)] else []) @
          (if DEBUG s \<and> r_cudaThreadSynchronize dev \<noteq> cudaSuccess then []
           else [CudaEventQuery, WorkProgress_GetQueueLength (r_GetQueueLength dev)] @
             (if r_GetQueueLength dev \<noteq> cudaSuccess then []
              else [Kernel_MemsetCopyVector,
                    WorkProgress_CheckOverflow (r_CheckOverflow dev)
                      (r_CheckOverflow dev = cudaSuccess \<and>
                       CheckOverflow (work_progress (snd (snd (EnactDC mode dev pr top_nodes mgs s)))))])) @
          (if mode = LB then [CudaFree_scanned_edges] else []) @
          (if DEBUG s then [Printf ''====> GPU Degree Centrality Complete.''] else []))))"
    by blast
  note dis = setup_events_disjoint [OF se]
  have c0: "count_list se (Kernel_Advance 0 1) = 0" "count_list se CudaFree_scanned_edges = 0"
    using dis(2,3) by (simp_all add: count_list_0_iff)
  show ?thesis
    apply (rule exI, rule conjI, rule tr)
    apply (intro conjI)
    subgoal using dis(3) by simp
    subgoal using c0 by simp
    subgoal using dis(1) by simp
    subgoal using dis(1,2) by auto
    subgoal using c0 by simp
    subgoal using dis(3) by (simp split: if_splits)
    subgoal using dis(4) c0 by (simp split: if_splits)
    done
qed

text \<open>The two example runs.\<close>

lemma example_run_trace:
  "trace (snd (snd (EnactDC LB dev_ok problem5 2 0 enactor0))) =
     [CudaHostAlloc cudaSuccess, CudaHostGetDevicePointer cudaSuccess,
      CudaEventCreateWithFlags cudaSuccess, CudaBindTexture cudaSuccess,
      EnactorBase_Setup 0 cudaSuccess, Kernel_CUBRadixSort,
      Cub_ExclusiveSum NULL, CudaMalloc_temp_storage cudaSuccess,
      Cub_ExclusiveSum Allocated, CudaMalloc_scanned_edges cudaSuccess,
      Kernel_MemsetCopyVector, Kernel_Advance 0 1, CudaEventQuery,
      WorkProgress_GetQueueLength cudaSuccess, Kernel_MemsetCopyVector,
      WorkProgress_CheckOverflow cudaSuccess False, CudaFree_scanned_edges]"
  by code_simp

lemma example_overflow_trace:
  "trace (snd (snd (EnactDC LB dev_ok problem5_small 2 0 enactor0))) =
     [CudaHostAlloc cudaSuccess, CudaHostGetDevicePointer cudaSuccess,
      CudaEventCreateWithFlags cudaSuccess, CudaBindTexture cudaSuccess,
      EnactorBase_Setup 0 cudaSuccess, Kernel_CUBRadixSort,
      Cub_ExclusiveSum NULL, CudaMalloc_temp_storage cudaSuccess,
      Cub_ExclusiveSum Allocated, CudaMalloc_scanned_edges cudaSuccess,
      Kernel_MemsetCopyVector, Kernel_Advance 0 1, CudaEventQuery,
      WorkProgress_GetQueueLength cudaSuccess, Kernel_MemsetCopyVector,
      WorkProgress_CheckOverflow cudaSuccess True, CudaFree_scanned_edges]"
  by code_simp


text \<open>The stages after the sort and scan leave the sorted arrays and the scanned offsets alone.\<close>

lemma readback_keeps:
  "d_degrees (data_slice (fst (snd (EnactDC_readback p dev pr s)))) = d_degrees (data_slice pr)"
  "d_node_id (data_slice (fst (snd (EnactDC_readback p dev pr s)))) = d_node_id (data_slice pr)"
  "d_sub_row_offsets (data_slice (fst (snd (EnactDC_readback p dev pr s))))
     = d_sub_row_offsets (data_slice pr)"
  by (simp_all add: readback_problem)

lemma launch_keeps:
  "d_degrees (data_slice (fst (snd (EnactDC_launch p top_nodes dev pr s)))) = d_degrees (data_slice pr)"
  "d_node_id (data_slice (fst (snd (EnactDC_launch p top_nodes dev pr s)))) = d_node_id (data_slice pr)"
  "d_sub_row_offsets (data_slice (fst (snd (EnactDC_launch p top_nodes dev pr s))))
     = d_sub_row_offsets (data_slice pr)"
  by (simp_all add: EnactDC_launch_def Let_def readback_keeps)

lemma advance_keeps:
  "d_degrees (data_slice (fst (snd (EnactDC_advance mode top_nodes dev pr s))))
     = d_degrees (data_slice pr)"
  "d_node_id (data_slice (fst (snd (EnactDC_advance mode top_nodes dev pr s))))
     = d_node_id (data_slice pr)"
  "d_sub_row_offsets (data_slice (fst (snd (EnactDC_advance mode top_nodes dev pr s))))
     = d_sub_row_offsets (data_slice pr)"
  by (simp_all add: EnactDC_advance_def Let_def launch_keeps)



subsection \<open>The load-balancing scratch array\<close>

text \<open>
  Claim C10. In what \<open>EnactDC\<close> adds to the record of device calls, the scratch array
  \<open>d_scanned_edges\<close> is allocated only when the advance mode is \<open>LB\<close>; it is freed
  in exactly the runs in which its allocation succeeded, whichever way the run then
  ends, and never more than once.
\<close>

theorem EnactDC_scanned_edges_freed:
  "\<exists>evs. trace (snd (snd (EnactDC mode dev pr top_nodes mgs s))) = trace s @ evs
     \<and> (\<forall>r. CudaMalloc_scanned_edges r \<in> set evs \<longrightarrow> mode = LB)
     \<and> (CudaMalloc_scanned_edges cudaSuccess \<in> set evs \<longleftrightarrow> CudaFree_scanned_edges \<in> set evs)
     \<and> count_list evs CudaFree_scanned_edges \<le> 1"
  using EnactDC_events [of mode dev pr top_nodes mgs s] by blast

theorem EnactDC_scanned_edges_freed_witness:
  "CudaMalloc_scanned_edges cudaSuccess
     \<in> set (trace (snd (snd (EnactDC LB dev_ok problem5_small 2 0 enactor0))))
   \<and> fst (EnactDC LB dev_ok problem5_small 2 0 enactor0) = cudaErrorInvalidConfiguration
   \<and> CudaFree_scanned_edges
     \<in> set (trace (snd (snd (EnactDC LB dev_ok problem5_small 2 0 enactor0))))
   \<and> count_list (trace (snd (snd (EnactDC LB dev_ok problem5_small 2 0 enactor0))))
        CudaFree_scanned_edges \<le> 1"
proof -
  have t0: "trace enactor0 = []"
    by (simp add: enactor0_def DCEnactor_new_def)
  have m: "CudaMalloc_scanned_edges cudaSuccess
     \<in> set (trace (snd (snd (EnactDC LB dev_ok problem5_small 2 0 enactor0))))"
    by (simp add: example_overflow_trace)
  have r: "fst (EnactDC LB dev_ok problem5_small 2 0 enactor0) = cudaErrorInvalidConfiguration"
    by code_simp
  from EnactDC_scanned_edges_freed [of LB dev_ok problem5_small 2 0 enactor0] m r t0
  show ?thesis
    by auto
qed

subsection \<open>Enact\<close>

text \<open>
  Claim C3. On a device whose sm version is below 300, \<open>Enact\<close> returns
  \<open>cudaErrorInvalidDeviceFunction\<close> at once: the problem is untouched and the only thing
  recorded is the message it prints, so no device call is made and no kernel launched.
  On a device at sm 300 or above it runs \<open>EnactDC\<close> with the \<open>sm_30\<close> policies,
  whose advance mode is \<open>LB\<close>.
\<close>

theorem Enact_selects_policy_by_capability:
  "(device_sm_version s < 300 \<longrightarrow>
      Enact dev pr top_nodes mgs s =
        (cudaErrorInvalidDeviceFunction, pr,
         record_event (Printf ''Not yet tuned for this architecture'') s)
      \<and> fst (Enact dev pr top_nodes mgs s) \<noteq> cudaSuccess
      \<and> trace (snd (snd (Enact dev pr top_nodes mgs s))) =
          trace s @ [Printf ''Not yet tuned for this architecture''])
   \<and> (300 \<le> device_sm_version s \<longrightarrow>
        Enact dev pr top_nodes mgs s = EnactDC LB dev pr top_nodes mgs s)"
  by (simp add: Enact_def)

theorem Enact_selects_policy_by_capability_witness:
  "device_sm_version enactor_sm20 < 300
   \<and> fst (Enact dev_ok problem5 2 0 enactor_sm20) = cudaErrorInvalidDeviceFunction
   \<and> trace (snd (snd (Enact dev_ok problem5 2 0 enactor_sm20))) =
        [Printf ''Not yet tuned for this architecture'']
   \<and> 300 \<le> device_sm_version enactor0
   \<and> fst (Enact dev_ok problem5 2 0 enactor0) = cudaSuccess
   \<and> Kernel_Advance 0 1 \<in> set (trace (snd (snd (Enact dev_ok problem5 2 0 enactor0))))"
proof -
  have a: "device_sm_version enactor_sm20 = 200" "trace enactor_sm20 = []"
    by (simp_all add: enactor_sm20_def enactor0_def DCEnactor_new_def)
  have b: "device_sm_version enactor0 = 300"
    by (simp add: enactor0_def DCEnactor_new_def)
  have r: "fst (EnactDC LB dev_ok problem5 2 0 enactor0) = cudaSuccess"
    by code_simp
  from Enact_selects_policy_by_capability [of enactor_sm20 dev_ok problem5 2 0]
    Enact_selects_policy_by_capability [of enactor0 dev_ok problem5 2 0]
  show ?thesis
    by (simp add: a b r example_run_trace)
qed

subsection \<open>Queue overflow\<close>



lemma topk_sub_col [simp]:
  "d_sub_col_indices (data_slice (fst (EnactDC_topk top_nodes dev pr s))) =
     d_sub_col_indices (data_slice pr)"
  by (simp add: EnactDC_topk_def Let_def)





subsection \<open>Top-K extraction: sort and scan\<close>










lemma length_exclusive_scan [simp]: "length (exclusive_scan acc xs) = length xs"
  by (induction xs arbitrary: acc) simp_all







subsection \<open>The frontier buffers of the advance launch\<close>

lemma selector_xor:
  fixes sel :: int
  assumes "sel = 0 \<or> sel = 1"
  shows "(sel XOR 1 = 0 \<or> sel XOR 1 = 1) \<and> sel XOR 1 \<noteq> sel"
  using assms by auto

lemma LaunchKernel_buffers:
  assumes "sel = 0 \<or> sel = 1"
  shows "buf_at (frontier_queues_d_keys
                  (fst (advance_LaunchKernel dev fa sel (sel XOR 1) max_in max_out gs wp))) sel
           = buf_at (frontier_queues_d_keys gs) sel"
    and "buf_at (frontier_queues_d_keys
                  (fst (advance_LaunchKernel dev fa sel (sel XOR 1) max_in max_out gs wp)))
           (sel XOR 1)
           = fst (advance_kernel dev (d_row_offsets gs) (d_column_indices gs)
                    (take (nat (queue_length fa)) (buf_at (frontier_queues_d_keys gs) sel)) max_out)"
  using assms by (auto simp add: advance_LaunchKernel_def Let_def buf_at_def buf_upd_def)

lemma readback_graph_slice [simp]:
  "graph_slice (fst (snd (EnactDC_readback p dev pr s))) = graph_slice pr"
  by (simp add: readback_problem)

lemma launch_graph_slice:
  "graph_slice (fst (snd (EnactDC_launch p top_nodes dev pr s))) =
     fst (advance_LaunchKernel dev (frontier_attribute s)
            (selector (frontier_attribute s)) (selector (frontier_attribute s) XOR 1)
            (buf_at (frontier_elements (graph_slice pr)) (selector (frontier_attribute s)))
            (buf_at (frontier_elements (graph_slice pr)) (selector (frontier_attribute s) XOR 1))
            ((graph_slice pr)\<lparr>frontier_queues_d_keys :=
                  buf_upd (frontier_queues_d_keys (graph_slice pr)) (selector (frontier_attribute s))
                    (MemsetCopyVectorKernel
                       (buf_at (frontier_queues_d_keys (graph_slice pr)) (selector (frontier_attribute s)))
                       (d_node_id (data_slice pr)) top_nodes)\<rparr>)
            (work_progress s))"
  by (simp add: EnactDC_launch_def Let_def)

lemma launch_buffers:
  assumes "selector (frontier_attribute s) = 0"
  shows "buf_at (frontier_queues_d_keys (graph_slice (fst (snd (EnactDC_launch p top_nodes dev pr s))))) 0
      = MemsetCopyVectorKernel (buf_at (frontier_queues_d_keys (graph_slice pr)) 0)
          (d_node_id (data_slice pr)) top_nodes"
    and "buf_at (frontier_queues_d_keys (graph_slice (fst (snd (EnactDC_launch p top_nodes dev pr s))))) 1
      = fst (advance_kernel dev (d_row_offsets (graph_slice pr)) (d_column_indices (graph_slice pr))
          (take (nat (queue_length (frontier_attribute s)))
             (MemsetCopyVectorKernel (buf_at (frontier_queues_d_keys (graph_slice pr)) 0)
                (d_node_id (data_slice pr)) top_nodes))
          (buf_at (frontier_elements (graph_slice pr)) 1))"
  unfolding launch_graph_slice
  using assms by (simp_all add: advance_LaunchKernel_def Let_def buf_at_def buf_upd_def)

lemma advance_buffers:
  assumes "\<not> (mode = LB \<and> r_cudaMalloc_scanned_edges dev \<noteq> cudaSuccess)"
  shows "buf_at (frontier_queues_d_keys
                  (graph_slice (fst (snd (EnactDC_advance mode top_nodes dev pr s))))) 0
      = MemsetCopyVectorKernel (buf_at (frontier_queues_d_keys (graph_slice pr)) 0)
          (d_node_id (data_slice pr)) top_nodes"
    and "buf_at (frontier_queues_d_keys
                  (graph_slice (fst (snd (EnactDC_advance mode top_nodes dev pr s))))) 1
      = fst (advance_kernel dev (d_row_offsets (graph_slice pr)) (d_column_indices (graph_slice pr))
          (take (nat top_nodes)
             (MemsetCopyVectorKernel (buf_at (frontier_queues_d_keys (graph_slice pr)) 0)
                (d_node_id (data_slice pr)) top_nodes))
          (buf_at (frontier_elements (graph_slice pr)) 1))"
  using assms by (auto simp add: EnactDC_advance_def Let_def GRError_def launch_buffers)

lemma topk_graph_slice [simp]:
  "graph_slice (fst (EnactDC_topk top_nodes dev pr s)) = graph_slice pr"
  by (simp add: EnactDC_topk_def Let_def)

lemma EnactDC_buffers:
  assumes "fst (Setup dev s) = cudaSuccess" and "r_EnactorBase_Setup dev = cudaSuccess"
    and "\<not> (mode = LB \<and> r_cudaMalloc_scanned_edges dev \<noteq> cudaSuccess)"
  shows "buf_at (frontier_queues_d_keys
                  (graph_slice (fst (snd (EnactDC mode dev pr top_nodes mgs s))))) 0
      = MemsetCopyVectorKernel (buf_at (frontier_queues_d_keys (graph_slice pr)) 0)
          (d_node_id (data_slice (fst (snd (EnactDC mode dev pr top_nodes mgs s))))) top_nodes"
    and "buf_at (frontier_queues_d_keys
                  (graph_slice (fst (snd (EnactDC mode dev pr top_nodes mgs s))))) 1
      = fst (advance_kernel dev (d_row_offsets (graph_slice pr)) (d_column_indices (graph_slice pr))
          (take (nat top_nodes)
             (buf_at (frontier_queues_d_keys
                        (graph_slice (fst (snd (EnactDC mode dev pr top_nodes mgs s))))) 0))
          (buf_at (frontier_elements (graph_slice pr)) 1))"
proof -
  let ?s2 = "record_event (EnactorBase_Setup mgs (r_EnactorBase_Setup dev)) (snd (Setup dev s))"
  let ?k = "EnactDC_topk top_nodes dev pr ?s2"
  have eq: "EnactDC mode dev pr top_nodes mgs s = EnactDC_advance mode top_nodes dev (fst ?k) (snd ?k)"
    using assms(1,2) by (simp add: EnactDC_def Let_def)
  note b = advance_buffers [OF assms(3), of top_nodes "fst ?k" "snd ?k"]
  show "buf_at (frontier_queues_d_keys
                  (graph_slice (fst (snd (EnactDC mode dev pr top_nodes mgs s))))) 0
      = MemsetCopyVectorKernel (buf_at (frontier_queues_d_keys (graph_slice pr)) 0)
          (d_node_id (data_slice (fst (snd (EnactDC mode dev pr top_nodes mgs s))))) top_nodes"
    unfolding eq by (simp add: b advance_keeps)
  show "buf_at (frontier_queues_d_keys
                  (graph_slice (fst (snd (EnactDC mode dev pr top_nodes mgs s))))) 1
      = fst (advance_kernel dev (d_row_offsets (graph_slice pr)) (d_column_indices (graph_slice pr))
          (take (nat top_nodes)
             (buf_at (frontier_queues_d_keys
                        (graph_slice (fst (snd (EnactDC mode dev pr top_nodes mgs s))))) 0))
          (buf_at (frontier_elements (graph_slice pr)) 1))"
    unfolding eq by (simp add: b advance_keeps)
qed

text \<open>
  Claim C7. With \<open>selector\<close> 0 or 1, the launch that reads buffer \<open>selector\<close>
  and writes buffer \<open>selector^1\<close> addresses two different buffers, leaves the read
  buffer as it was and puts the kernel's output, computed from the read buffer, into
  the other one. \<open>EnactDC\<close> launches the advance kernel at most once, with
  \<open>selector\<close> 0: it reads buffer 0 and writes buffer 1. After a run that launched
  the kernel, buffer 0 still holds the frontier seeded with the top node ids and buffer
  1 holds the kernel's output for that frontier.
\<close>

theorem advance_reads_selector_writes_other:
  "(sel = 0 \<or> sel = 1 \<longrightarrow>
      (sel XOR 1 = 0 \<or> sel XOR 1 = 1) \<and> sel XOR 1 \<noteq> sel
      \<and> buf_at (frontier_queues_d_keys
                  (fst (advance_LaunchKernel dev fa sel (sel XOR 1) max_in max_out gs wp))) sel
           = buf_at (frontier_queues_d_keys gs) sel
      \<and> buf_at (frontier_queues_d_keys
                  (fst (advance_LaunchKernel dev fa sel (sel XOR 1) max_in max_out gs wp)))
           (sel XOR 1)
           = fst (advance_kernel dev (d_row_offsets gs) (d_column_indices gs)
                    (take (nat (queue_length fa)) (buf_at (frontier_queues_d_keys gs) sel)) max_out))
   \<and> (\<exists>evs. trace (snd (snd (EnactDC mode dev pr top_nodes mgs s))) = trace s @ evs
          \<and> (\<forall>r w. Kernel_Advance r w \<in> set evs \<longrightarrow> r = 0 \<and> w = 1)
          \<and> count_list evs (Kernel_Advance 0 1) \<le> 1
          \<and> (Kernel_Advance 0 1 \<in> set evs \<longrightarrow>
                buf_at (frontier_queues_d_keys
                          (graph_slice (fst (snd (EnactDC mode dev pr top_nodes mgs s))))) 0
                  = MemsetCopyVectorKernel (buf_at (frontier_queues_d_keys (graph_slice pr)) 0)
                      (d_node_id (data_slice (fst (snd (EnactDC mode dev pr top_nodes mgs s)))))
                      top_nodes
                \<and> buf_at (frontier_queues_d_keys
                          (graph_slice (fst (snd (EnactDC mode dev pr top_nodes mgs s))))) 1
                  = fst (advance_kernel dev (d_row_offsets (graph_slice pr))
                      (d_column_indices (graph_slice pr))
                      (take (nat top_nodes)
                         (buf_at (frontier_queues_d_keys
                            (graph_slice (fst (snd (EnactDC mode dev pr top_nodes mgs s))))) 0))
                      (buf_at (frontier_elements (graph_slice pr)) 1))))"
proof -
  from EnactDC_events [of mode dev pr top_nodes mgs s]
  obtain evs where e: "trace (snd (snd (EnactDC mode dev pr top_nodes mgs s))) = trace s @ evs"
    and only: "\<forall>r w. Kernel_Advance r w \<in> set evs \<longrightarrow> r = 0 \<and> w = 1"
    and once: "count_list evs (Kernel_Advance 0 1) \<le> 1"
    and launched: "Kernel_Advance 0 1 \<in> set evs \<longrightarrow>
          fst (Setup dev s) = cudaSuccess \<and> r_EnactorBase_Setup dev = cudaSuccess
          \<and> \<not> (mode = LB \<and> r_cudaMalloc_scanned_edges dev \<noteq> cudaSuccess)"
    by blast
  have bufs: "buf_at (frontier_queues_d_keys
                          (graph_slice (fst (snd (EnactDC mode dev pr top_nodes mgs s))))) 0
                  = MemsetCopyVectorKernel (buf_at (frontier_queues_d_keys (graph_slice pr)) 0)
                      (d_node_id (data_slice (fst (snd (EnactDC mode dev pr top_nodes mgs s)))))
                      top_nodes
                \<and> buf_at (frontier_queues_d_keys
                          (graph_slice (fst (snd (EnactDC mode dev pr top_nodes mgs s))))) 1
                  = fst (advance_kernel dev (d_row_offsets (graph_slice pr))
                      (d_column_indices (graph_slice pr))
                      (take (nat top_nodes)
                         (buf_at (frontier_queues_d_keys
                            (graph_slice (fst (snd (EnactDC mode dev pr top_nodes mgs s))))) 0))
                      (buf_at (frontier_elements (graph_slice pr)) 1))"
    if "Kernel_Advance 0 1 \<in> set evs"
  proof -
    from launched that
    have c: "fst (Setup dev s) = cudaSuccess" "r_EnactorBase_Setup dev = cudaSuccess"
      "\<not> (mode = LB \<and> r_cudaMalloc_scanned_edges dev \<noteq> cudaSuccess)"
      by simp_all
    from EnactDC_buffers [OF c, of pr top_nodes mgs] show ?thesis
      by simp
  qed
  from e only once bufs selector_xor [of sel]
    LaunchKernel_buffers [of sel dev fa max_in max_out gs wp]
  show ?thesis
    by blast
qed

theorem advance_reads_selector_writes_other_witness:
  "((0::int) = 0 \<or> (0::int) = 1)
   \<and> buf_at (frontier_queues_d_keys
               (fst (advance_LaunchKernel dev_ok
                  \<lparr>queue_length = 2, queue_index = 0, selector = 0, queue_reset = True\<rparr>
                  0 (0 XOR 1) 10 10
                  ((graph_slice problem5)\<lparr>frontier_queues_d_keys := ([3, 1], [7, 7, 7])\<rparr>)
                  (work_progress enactor0)))) 0 = [3, 1]
   \<and> buf_at (frontier_queues_d_keys
               (fst (advance_LaunchKernel dev_ok
                  \<lparr>queue_length = 2, queue_index = 0, selector = 0, queue_reset = True\<rparr>
                  0 (0 XOR 1) 10 10
                  ((graph_slice problem5)\<lparr>frontier_queues_d_keys := ([3, 1], [7, 7, 7])\<rparr>)
                  (work_progress enactor0)))) 1 = [0, 1, 2, 4, 0, 2, 3]
   \<and> Kernel_Advance 0 1 \<in> set (trace (snd (snd (EnactDC LB dev_ok problem5 2 0 enactor0))))
   \<and> frontier_queues_d_keys (graph_slice (fst (snd (EnactDC LB dev_ok problem5 2 0 enactor0))))
       = ([3, 1, - 1, - 1, - 1, - 1, - 1, - 1, - 1, - 1], [0, 1, 2, 4, 0, 2, 3])"
proof -
  have q: "frontier_queues_d_keys (graph_slice (fst (snd (EnactDC LB dev_ok problem5 2 0 enactor0))))
       = ([3, 1, - 1, - 1, - 1, - 1, - 1, - 1, - 1, - 1], [0, 1, 2, 4, 0, 2, 3])"
    by code_simp
  have k: "fst (advance_kernel dev_ok (d_row_offsets (graph_slice problem5))
                  (d_column_indices (graph_slice problem5)) [3, 1] 10) = [0, 1, 2, 4, 0, 2, 3]"
    by code_simp
  have x: "(0::int) XOR 1 = 1"
    by simp
  from advance_reads_selector_writes_other [of 0 dev_ok
      "\<lparr>queue_length = 2, queue_index = 0, selector = 0, queue_reset = True\<rparr>" 10 10
      "(graph_slice problem5)\<lparr>frontier_queues_d_keys := ([3, 1], [7, 7, 7])\<rparr>"
      "work_progress enactor0" LB problem5 2 0 enactor0]
  show ?thesis
    by (simp add: k x q buf_at_def example_run_trace)
qed

section \<open>Properties of the connected-components interface\<close>

lemma runCC_events:
  "snd (runCC extract i d c output parameter evs) =
     evs @ [App_printf ''_________________________'', RunCC i d c,
            App_printf ''-------------------------'',
            App_printf ''GPU Connected Component finished in %lf msec.'']"
  and runCC_output:
  "fst (runCC extract i d c output parameter evs) =
     output\<lparr>node_value1 := extract i d c parameter\<rparr>"
  by (simp_all add: runCC_def Let_def)

lemma instrumentedCC_runs:
  "snd (instrumentedCC extract output parameter evs) =
     evs @ [App_printf ''_________________________'',
            RunCC (instrumented parameter) (debug parameter) (size_check parameter),
            App_printf ''-------------------------'',
            App_printf ''GPU Connected Component finished in %lf msec.'']"
  and instrumentedCC_output:
  "fst (instrumentedCC extract output parameter evs) =
     output\<lparr>node_value1 :=
        extract (instrumented parameter) (debug parameter) (size_check parameter) parameter\<rparr>"
  by (simp_all add: instrumentedCC_def debugCC_def sizeCheckCC_def runCC_events runCC_output)

lemma dispatch_cc_other:
  assumes "\<not> (VTXID_TYPE data_t = VTXID_INT \<and> SIZET_TYPE data_t = SIZET_INT
              \<and> VALUE_TYPE data_t = VALUE_INT)"
  shows "dispatch_cc extract parameter0 graph_o graph_i config data_t ctx strms evs = (graph_o, evs)
       \<or> dispatch_cc extract parameter0 graph_o graph_i config data_t ctx strms evs =
           (graph_o, evs @ [App_printf ''Not Yet Support This DataType Combination.''])"
  using assms
  by (cases "VTXID_TYPE data_t"; cases "SIZET_TYPE data_t"; cases "VALUE_TYPE data_t")
     (simp_all add: dispatch_cc_def Let_def)

lemma dispatch_cc_int:
  assumes "VTXID_TYPE data_t = VTXID_INT" and "SIZET_TYPE data_t = SIZET_INT"
    and "VALUE_TYPE data_t = VALUE_INT"
  shows "\<exists>i d c. RunCC i d c
           \<in> set (snd (dispatch_cc extract parameter0 graph_o graph_i config data_t ctx strms evs))"
  using assms by (auto simp add: dispatch_cc_def Let_def instrumentedCC_runs)

text \<open>
  Claim C9. For every combination of type tags other than
  (\<open>VTXID_INT\<close>, \<open>SIZET_INT\<close>, \<open>VALUE_INT\<close>), \<open>dispatch_cc\<close> gives back the output
  graph it was given, runs nothing, and adds to what was printed at most the line
  "Not Yet Support This DataType Combination."; the function has no status to return.
  For the one supported combination it does run the algorithm.
\<close>

theorem dispatch_cc_unsupported_types_do_nothing:
  "(\<not> (VTXID_TYPE data_t = VTXID_INT \<and> SIZET_TYPE data_t = SIZET_INT
         \<and> VALUE_TYPE data_t = VALUE_INT) \<longrightarrow>
      fst (dispatch_cc extract parameter0 graph_o graph_i config data_t ctx strms evs) = graph_o
      \<and> (\<exists>msgs. snd (dispatch_cc extract parameter0 graph_o graph_i config data_t ctx strms evs)
                   = evs @ msgs
             \<and> (msgs = [] \<or> msgs = [App_printf ''Not Yet Support This DataType Combination.''])
             \<and> (\<forall>i d c. RunCC i d c \<notin> set msgs)))
   \<and> (VTXID_TYPE data_t = VTXID_INT \<and> SIZET_TYPE data_t = SIZET_INT
        \<and> VALUE_TYPE data_t = VALUE_INT \<longrightarrow>
        (\<exists>i d c. RunCC i d c
           \<in> set (snd (dispatch_cc extract parameter0 graph_o graph_i config data_t ctx strms evs))))"
proof (intro conjI impI)
  assume unsupported: "\<not> (VTXID_TYPE data_t = VTXID_INT \<and> SIZET_TYPE data_t = SIZET_INT
         \<and> VALUE_TYPE data_t = VALUE_INT)"
  from dispatch_cc_other [OF unsupported, of "extract" parameter0 graph_o graph_i config ctx strms evs]
  show "fst (dispatch_cc extract parameter0 graph_o graph_i config data_t ctx strms evs) = graph_o"
    by auto
  from dispatch_cc_other [OF unsupported, of "extract" parameter0 graph_o graph_i config ctx strms evs]
  show "\<exists>msgs. snd (dispatch_cc extract parameter0 graph_o graph_i config data_t ctx strms evs)
                   = evs @ msgs
             \<and> (msgs = [] \<or> msgs = [App_printf ''Not Yet Support This DataType Combination.''])
             \<and> (\<forall>i d c. RunCC i d c \<notin> set msgs)"
    by auto
next
  assume "VTXID_TYPE data_t = VTXID_INT \<and> SIZET_TYPE data_t = SIZET_INT
        \<and> VALUE_TYPE data_t = VALUE_INT"
  then show "\<exists>i d c. RunCC i d c
           \<in> set (snd (dispatch_cc extract parameter0 graph_o graph_i config data_t ctx strms evs))"
    using dispatch_cc_int [of data_t "extract" parameter0 graph_o graph_i config ctx strms evs]
    by blast
qed

theorem dispatch_cc_unsupported_types_do_nothing_witness:
  "\<not> (VTXID_TYPE types_int_int_float = VTXID_INT \<and> SIZET_TYPE types_int_int_float = SIZET_INT
        \<and> VALUE_TYPE types_int_int_float = VALUE_INT)
   \<and> dispatch_cc extract_two_triangles parameter_default graph_empty graph_empty
        \<lparr>num_devices = 1, device_list = [0]\<rparr> types_int_int_float [0] [0, 1] []
      = (graph_empty, [App_printf ''Not Yet Support This DataType Combination.''])
   \<and> VALUE_TYPE types_int_int_int = VALUE_INT
   \<and> RunCC False False True
        \<in> set (snd (dispatch_cc extract_two_triangles parameter_default graph_empty graph_empty
               \<lparr>num_devices = 1, device_list = [0]\<rparr> types_int_int_int [0] [0, 1] []))"
proof -
  have a: "dispatch_cc extract_two_triangles parameter_default graph_empty graph_empty
        \<lparr>num_devices = 1, device_list = [0]\<rparr> types_int_int_float [0] [0, 1] []
      = (graph_empty, [App_printf ''Not Yet Support This DataType Combination.''])"
    by (simp add: dispatch_cc_def types_int_int_float_def)
  have b: "RunCC False False True
        \<in> set (snd (dispatch_cc extract_two_triangles parameter_default graph_empty graph_empty
               \<lparr>num_devices = 1, device_list = [0]\<rparr> types_int_int_int [0] [0, 1] []))"
    by (simp add: dispatch_cc_def types_int_int_int_def instrumentedCC_runs parameter_default_def)
  from dispatch_cc_unsupported_types_do_nothing [of types_int_int_float extract_two_triangles
      parameter_default graph_empty graph_empty "\<lparr>num_devices = 1, device_list = [0]\<rparr>"
      "[0]" "[0, 1]" "[]"]
    dispatch_cc_unsupported_types_do_nothing [of types_int_int_int extract_two_triangles
      parameter_default graph_empty graph_empty "\<lparr>num_devices = 1, device_list = [0]\<rparr>"
      "[0]" "[0, 1]" "[]"]
  show ?thesis
    using a b by (simp add: types_int_int_float_def types_int_int_int_def)
qed

text \<open>
  Claim C8. Whatever the graph and whatever the run extracts, \<open>cc\<close> returns 0:
  \<open>num_components\<close> is set to zero and returned as it is. The run does take place
  and its labels are copied into the caller's array, but they never reach the
  returned count.
\<close>

theorem cc_returns_zero:
  "fst (cc extract parameter0 graph_o0 component n_nodes n_edges r_offsets c_indices) = 0
   \<and> RunCC (instrumented parameter0) (debug parameter0) (size_check parameter0)
         \<in> set (snd (snd (cc extract parameter0 graph_o0 component n_nodes n_edges
                             r_offsets c_indices)))
   \<and> fst (snd (cc extract parameter0 graph_o0 component n_nodes n_edges r_offsets c_indices)) =
       memcpy_ints component
         (extract (instrumented parameter0) (debug parameter0) (size_check parameter0)
            (parameter0\<lparr>context_ptr := [0], streams := [0, 1], num_gpus := 1, gpu_idx := [0],
               graph := Some \<lparr>csr_nodes = n_nodes, csr_edges = n_edges,
                              csr_row_offsets = r_offsets, csr_column_indices = c_indices\<rparr>\<rparr>))
         n_nodes"
  by (simp add: cc_def gunrock_cc_def dispatch_cc_def Let_def instrumentedCC_runs
      instrumentedCC_output upt_rec numeral_nat)

theorem cc_returns_zero_witness:
  "cc extract_two_triangles parameter_default graph_empty [9, 9, 9, 9, 9, 9] 6 12
      [0, 2, 4, 6, 8, 10, 12] [1, 2, 0, 2, 0, 1, 4, 5, 3, 5, 3, 4]
    = (0, [0, 0, 0, 3, 3, 3],
       [App_printf ''-------------------- setting --------------------'',
        App_printf '' loaded %d nodes and %d edges'',
        App_printf ''-------------------- running --------------------'',
        App_printf '' using %d GPUs:'', App_printf '' %d '', SetDevice 0,
        CudaStreamCreate 0, CreateCudaDeviceAttachStream 0 0, CudaStreamCreate 1,
        App_printf [CHR 10], App_printf ''_________________________'',
        RunCC False False True, App_printf ''-------------------------'',
        App_printf ''GPU Connected Component finished in %lf msec.'',
        App_printf ''------------------- completed -------------------''])"
proof -
  have "fst (cc extract_two_triangles parameter_default graph_empty [9, 9, 9, 9, 9, 9] 6 12
      [0, 2, 4, 6, 8, 10, 12] [1, 2, 0, 2, 0, 1, 4, 5, 3, 5, 3, 4]) = 0"
    using cc_returns_zero [of extract_two_triangles parameter_default graph_empty
        "[9, 9, 9, 9, 9, 9]" 6 12 "[0, 2, 4, 6, 8, 10, 12]"
        "[1, 2, 0, 2, 0, 1, 4, 5, 3, 5, 3, 4]"]
    by blast
  moreover have "snd (cc extract_two_triangles parameter_default graph_empty [9, 9, 9, 9, 9, 9] 6 12
      [0, 2, 4, 6, 8, 10, 12] [1, 2, 0, 2, 0, 1, 4, 5, 3, 5, 3, 4])
    = ([0, 0, 0, 3, 3, 3],
       [App_printf ''-------------------- setting --------------------'',
        App_printf '' loaded %d nodes and %d edges'',
        App_printf ''-------------------- running --------------------'',
        App_printf '' using %d GPUs:'', App_printf '' %d '', SetDevice 0,
        CudaStreamCreate 0, CreateCudaDeviceAttachStream 0 0, CudaStreamCreate 1,
        App_printf [CHR 10], App_printf ''_________________________'',
        RunCC False False True, App_printf ''-------------------------'',
        App_printf ''GPU Connected Component finished in %lf msec.'',
        App_printf ''------------------- completed -------------------''])"
    by code_simp
  ultimately show ?thesis
    by (simp add: prod_eq_iff)
qed

end
